theory Spec2Isabelle
  imports Complex_Main "HOL-Library.Sublist" "HOL-Library.AList"
begin

section \<open>JavaScript values\<close>

text \<open>
  The trace reducer (\<^verbatim>\<open>AgentTraceContext.tsx\<close>) receives \<^verbatim>\<open>data: any\<close>, the result of
  \<^verbatim>\<open>JSON.parse\<close>, and copies parts of it into its state; TypeScript's types are erased
  at run time. A value is therefore a parsed JSON document or \<^verbatim>\<open>undefined\<close>. A number
  is given by its value (the infinities that a JSON text with a huge exponent parses to
  are left out); an object is the list of its properties.
\<close>

datatype jsval =
    JUndef
  | JNull
  | JBool bool
  | JNum rat
  | JStr string
  | JArr "jsval list"
  | JObj "(string \<times> jsval) list"

datatype js_error = TypeError

text \<open>Truthiness, \<^verbatim>\<open>a || b\<close> and strict equality \<^verbatim>\<open>a === b\<close>. Two objects or arrays
  are strictly equal only when they are the same reference; a value kept in the state
  and a value of the message being handled never are.\<close>

fun truthy :: "jsval \<Rightarrow> bool" where
  "truthy JUndef = False"
| "truthy JNull = False"
| "truthy (JBool b) = b"
| "truthy (JNum n) = (n \<noteq> 0)"
| "truthy (JStr s) = (s \<noteq> [])"
| "truthy (JArr xs) = True"
| "truthy (JObj kvs) = True"

definition or_js :: "jsval \<Rightarrow> jsval \<Rightarrow> jsval" where
  "or_js a b = (if truthy a then a else b)"

fun strict_eq :: "jsval \<Rightarrow> jsval \<Rightarrow> bool" where
  "strict_eq JUndef b = (b = JUndef)"
| "strict_eq JNull b = (b = JNull)"
| "strict_eq (JBool x) b = (b = JBool x)"
| "strict_eq (JNum x) b = (b = JNum x)"
| "strict_eq (JStr x) b = (b = JStr x)"
| "strict_eq (JArr xs) b = False"
| "strict_eq (JObj kvs) b = False"

fun nullish :: "jsval \<Rightarrow> bool" where
  "nullish JUndef = True"
| "nullish JNull = True"
| "nullish v = False"

text \<open>
  \<open>get v k\<close> is the property read \<^verbatim>\<open>v?.k\<close>; it is \<^verbatim>\<open>v.k\<close> where \<open>v\<close> is not nullish
  (there \<^verbatim>\<open>v.k\<close> throws, which the callers below test first). Of the properties that
  arrays and strings have of their own, the source reads \<^verbatim>\<open>length\<close> and \<^verbatim>\<open>[0]\<close> only;
  every other name it reads is undefined on an array, a string, a number or a boolean.
\<close>

fun get :: "jsval \<Rightarrow> string \<Rightarrow> jsval" where
  "get (JObj kvs) k = (case map_of kvs k of Some v \<Rightarrow> v | None \<Rightarrow> JUndef)"
| "get (JArr xs) k =
     (if k = ''length'' then JNum (of_nat (length xs))
      else if k = ''0'' then (case xs of [] \<Rightarrow> JUndef | x # _ \<Rightarrow> x)
      else JUndef)"
| "get (JStr s) k =
     (if k = ''length'' then JNum (of_nat (length s))
      else if k = ''0'' then (case s of [] \<Rightarrow> JUndef | c # _ \<Rightarrow> JStr [c])
      else JUndef)"
| "get v k = JUndef"

text \<open>
  What the reducer calls but the repository does not define is a parameter:
  \<^verbatim>\<open>JSON.stringify\<close>, and the conversion to a number that \<^verbatim>\<open>x > 0\<close> applies to a
  string, an array or an object (\<open>None\<close> is NaN).
\<close>

record runtime =
  stringify :: "jsval \<Rightarrow> jsval"
  to_number :: "jsval \<Rightarrow> rat option"

fun js_gt0 :: "runtime \<Rightarrow> jsval \<Rightarrow> bool" where
  "js_gt0 rt JUndef = False"
| "js_gt0 rt JNull = False"
| "js_gt0 rt (JBool b) = b"
| "js_gt0 rt (JNum n) = (0 < n)"
| "js_gt0 rt v = (case to_number rt v of None \<Rightarrow> False | Some n \<Rightarrow> 0 < n)"

text \<open>The readings of the clock that one handler takes: \<^verbatim>\<open>Date.now()\<close> in
  \<^verbatim>\<open>generateActionId\<close> and in the identifier of an auto-created trace,
  \<^verbatim>\<open>new Date().toISOString()\<close> for an action's timestamp and for a trace's
  \<^verbatim>\<open>started_at\<close> or \<^verbatim>\<open>completed_at\<close>.\<close>

record clock =
  now_id :: nat
  now_ts :: string
  now_trace :: nat
  now_iso :: string

fun show_nat :: "nat \<Rightarrow> string" where
  "show_nat n =
     (if n < 10 then [char_of (48 + n)]
      else show_nat (n div 10) @ [char_of (48 + n mod 10)])"

declare show_nat.simps [simp del]

section \<open>The agent trace reducer\<close>

record AgentAction =
  a_id :: jsval
  agent :: jsval
  action :: jsval
  input :: jsval
  output_a :: jsval
  status :: jsval
  duration_ms :: jsval
  timestamp :: jsval
  metadata :: jsval

record AgentTrace =
  trace_id :: jsval
  session_id :: jsval
  started_at :: jsval
  completed_at :: jsval
  status_t :: jsval
  total_duration_ms :: jsval
  actions :: "AgentAction list"
  current_agent :: jsval
  summary :: jsval

text \<open>The provider's state: the six \<^verbatim>\<open>useState\<close> cells and the counter behind
  \<^verbatim>\<open>generateActionId\<close>. An absent optional property is \<open>JUndef\<close>.\<close>

record state =
  currentTrace :: "AgentTrace option"
  allTraces :: "AgentTrace list"
  recentActions :: "AgentAction list"
  isConnected :: bool
  isTraceVisible :: bool
  isMinimized :: bool
  actionIdCounter :: nat

definition initial_state :: state where
  "initial_state =
     \<lparr>currentTrace = None, allTraces = [], recentActions = [], isConnected = False,
      isTraceVisible = False, isMinimized = False, actionIdCounter = 0\<rparr>"

definition generateActionId :: "clock \<Rightarrow> state \<Rightarrow> jsval \<times> state" where
  "generateActionId c s =
     (let n = actionIdCounter s + 1
      in (JStr (''action_'' @ show_nat (now_id c) @ ''_'' @ show_nat n),
          s\<lparr>actionIdCounter := n\<rparr>))"

subsection \<open>\<^verbatim>\<open>init\<close>\<close>

definition init_action :: "runtime \<Rightarrow> jsval \<Rightarrow> js_error + AgentAction" where
  "init_action rt a =
     (if nullish a then Inl TypeError
      else Inr \<lparr>a_id = get a ''id'',
                agent = get a ''agent'',
                action = get a ''action'',
                input = stringify rt (get a ''input''),
                output_a = (if truthy (get a ''output'') then stringify rt (get a ''output'')
                          else JUndef),
                status = (if strict_eq (get a ''status'') (JStr ''started'')
                          then JStr ''running'' else get a ''status''),
                duration_ms = get a ''duration_ms'',
                timestamp = get a ''started_at'',
                metadata = JUndef\<rparr>)"

fun map_actions :: "runtime \<Rightarrow> jsval list \<Rightarrow> js_error + AgentAction list" where
  "map_actions rt [] = Inr []"
| "map_actions rt (a # as) =
     (case init_action rt a of
        Inl e \<Rightarrow> Inl e
      | Inr x \<Rightarrow> (case map_actions rt as of Inl e \<Rightarrow> Inl e | Inr xs \<Rightarrow> Inr (x # xs)))"

text \<open>\<^verbatim>\<open>latestTrace.actions?.map(...) || []\<close>: a nullish \<^verbatim>\<open>actions\<close> gives the empty list,
  an array is mapped, and anything else has no \<^verbatim>\<open>map\<close> to call.\<close>

fun init_actions :: "runtime \<Rightarrow> jsval \<Rightarrow> js_error + AgentAction list" where
  "init_actions rt JUndef = Inr []"
| "init_actions rt JNull = Inr []"
| "init_actions rt (JArr xs) = map_actions rt xs"
| "init_actions rt v = Inl TypeError"

definition handle_init :: "runtime \<Rightarrow> jsval \<Rightarrow> state \<Rightarrow> js_error + state" where
  "handle_init rt data s =
     (let traces = get data ''traces''
      in if truthy traces \<and> js_gt0 rt (get traces ''length'') then
           (let latestTrace = get traces ''0''
            in if nullish latestTrace then Inl TypeError
               else (case init_actions rt (get latestTrace ''actions'') of
                       Inl e \<Rightarrow> Inl e
                     | Inr acts \<Rightarrow>
                         Inr (s\<lparr>currentTrace := Some
                                 \<lparr>trace_id = get latestTrace ''id'',
                                  session_id = or_js (get (get latestTrace ''context'') ''session_id'')
                                                 (JStr ''unknown''),
                                  started_at = get latestTrace ''started_at'',
                                  completed_at = JUndef,
                                  status_t = (if strict_eq (get latestTrace ''status'') (JStr ''active'')
                                              then JStr ''running'' else get latestTrace ''status''),
                                  total_duration_ms = JUndef,
                                  actions = acts,
                                  current_agent = JUndef,
                                  summary = JUndef\<rparr>,
                                isTraceVisible := True\<rparr>)))
         else Inr s)"

subsection \<open>\<^verbatim>\<open>trace_start\<close> and \<^verbatim>\<open>trace_started\<close>\<close>

definition handle_trace_start :: "clock \<Rightarrow> jsval \<Rightarrow> state \<Rightarrow> state" where
  "handle_trace_start c data s =
     (let trace = get data ''trace''
      in s\<lparr>currentTrace := Some
             \<lparr>trace_id = get trace ''id'',
              session_id = or_js (get (get trace ''context'') ''session_id'') (JStr ''unknown''),
              started_at = or_js (get trace ''started_at'') (JStr (now_iso c)),
              completed_at = JUndef,
              status_t = JStr ''running'',
              total_duration_ms = JUndef,
              actions = [],
              current_agent = JUndef,
              summary = JUndef\<rparr>,
            isTraceVisible := True\<rparr>)"

definition handle_trace_started :: "clock \<Rightarrow> jsval \<Rightarrow> state \<Rightarrow> state" where
  "handle_trace_started c data s =
     s\<lparr>currentTrace := Some
         \<lparr>trace_id = get data ''trace_id'',
          session_id = get data ''session_id'',
          started_at = or_js (get data ''timestamp'') (JStr (now_iso c)),
          completed_at = JUndef,
          status_t = JStr ''running'',
          total_duration_ms = JUndef,
          actions = [],
          current_agent = JUndef,
          summary = JUndef\<rparr>,
        isTraceVisible := True\<rparr>"

subsection \<open>\<^verbatim>\<open>action_start\<close>, \<^verbatim>\<open>action_started\<close>, \<^verbatim>\<open>agent_action\<close>\<close>

text \<open>The \<^verbatim>\<open>newAction\<close> of the event; \<^verbatim>\<open>generateActionId\<close> runs only when the event
  carries no truthy identifier.\<close>

definition event_action :: "runtime \<Rightarrow> clock \<Rightarrow> jsval \<Rightarrow> state \<Rightarrow> AgentAction \<times> state" where
  "event_action rt c data s =
     (let act = get data ''action'';
          carried = or_js (get act ''id'') (get data ''action_id'');
          (i, s') = (if truthy carried then (carried, s) else generateActionId c s)
      in (\<lparr>a_id = i,
           agent = or_js (get act ''agent'') (get data ''agent''),
           action = or_js (get act ''action'') act,
           input = (if truthy (get act ''input'') then stringify rt (get act ''input'')
                    else get data ''input''),
           output_a = JUndef,
           status = JStr ''running'',
           duration_ms = JUndef,
           timestamp = or_js (or_js (get act ''started_at'') (get data ''timestamp''))
                         (JStr (now_ts c)),
           metadata = get data ''metadata''\<rparr>, s'))"

text \<open>The updater given to \<^verbatim>\<open>setCurrentTrace\<close>: \<open>tid\<close> is the identifier an auto-created
  trace gets.\<close>

definition append_action :: "clock \<Rightarrow> jsval \<Rightarrow> AgentAction \<Rightarrow> AgentTrace option \<Rightarrow> AgentTrace option" where
  "append_action c tid newAction prev =
     (case prev of
        None \<Rightarrow> Some \<lparr>trace_id = tid,
                      session_id = JStr ''auto'',
                      started_at = JStr (now_iso c),
                      completed_at = JUndef,
                      status_t = JStr ''running'',
                      total_duration_ms = JUndef,
                      actions = [newAction],
                      current_agent = agent newAction,
                      summary = JUndef\<rparr>
      | Some p \<Rightarrow> Some (p\<lparr>current_agent := agent newAction,
                           actions := actions p @ [newAction]\<rparr>))"

definition push_recent :: "AgentAction \<Rightarrow> AgentAction list \<Rightarrow> AgentAction list" where
  "push_recent newAction prev = take 50 (newAction # prev)"

definition handle_action_start :: "runtime \<Rightarrow> clock \<Rightarrow> jsval \<Rightarrow> state \<Rightarrow> state" where
  "handle_action_start rt c data s =
     (let (newAction, s') = event_action rt c data s;
          tid = or_js (get data ''trace_id'') (JStr (''trace_'' @ show_nat (now_trace c)))
      in s'\<lparr>currentTrace := append_action c tid newAction (currentTrace s'),
             recentActions := push_recent newAction (recentActions s'),
             isTraceVisible := True\<rparr>)"

subsection \<open>\<^verbatim>\<open>action_update\<close>, \<^verbatim>\<open>action_completed\<close>, \<^verbatim>\<open>action_error\<close>\<close>

definition updateStatus :: "jsval \<Rightarrow> jsval" where
  "updateStatus data =
     (if strict_eq (get data ''status'') (JStr ''completed'') then JStr ''completed''
      else if strict_eq (get data ''status'') (JStr ''error'') then JStr ''error''
      else if strict_eq (get data ''status'') (JStr ''streaming'') then JStr ''running''
      else JStr ''running'')"

definition patch_update :: "runtime \<Rightarrow> jsval \<Rightarrow> AgentAction \<Rightarrow> AgentAction" where
  "patch_update rt data a =
     (if strict_eq (a_id a) (get data ''action_id'')
      then a\<lparr>status := updateStatus data,
             output_a := (if truthy (get data ''output'') then stringify rt (get data ''output'')
                          else output_a a),
             duration_ms := get data ''duration_ms''\<rparr>
      else a)"

definition patch_completed :: "jsval \<Rightarrow> AgentAction \<Rightarrow> AgentAction" where
  "patch_completed data a =
     (if strict_eq (a_id a) (get data ''action_id'')
      then a\<lparr>status := JStr ''completed'', output_a := get data ''output'',
             duration_ms := get data ''duration_ms''\<rparr>
      else a)"

definition patch_error :: "jsval \<Rightarrow> AgentAction \<Rightarrow> AgentAction" where
  "patch_error data a =
     (if strict_eq (a_id a) (get data ''action_id'')
      then a\<lparr>status := JStr ''error'', output_a := get data ''error''\<rparr>
      else a)"

text \<open>\<^verbatim>\<open>prev => prev ? {...prev, actions: prev.actions.map(f)} : prev\<close>\<close>

definition map_trace_actions :: "(AgentAction \<Rightarrow> AgentAction) \<Rightarrow> AgentTrace option \<Rightarrow> AgentTrace option" where
  "map_trace_actions f prev =
     (case prev of None \<Rightarrow> None | Some p \<Rightarrow> Some (p\<lparr>actions := map f (actions p)\<rparr>))"

definition handle_action_update :: "runtime \<Rightarrow> jsval \<Rightarrow> state \<Rightarrow> state" where
  "handle_action_update rt data s =
     s\<lparr>currentTrace := map_trace_actions (patch_update rt data) (currentTrace s),
       recentActions := map (patch_update rt data) (recentActions s)\<rparr>"

definition handle_action_completed :: "jsval \<Rightarrow> state \<Rightarrow> state" where
  "handle_action_completed data s =
     s\<lparr>currentTrace := map_trace_actions (patch_completed data) (currentTrace s),
       recentActions := map (patch_completed data) (recentActions s)\<rparr>"

text \<open>The \<^verbatim>\<open>action_error\<close> case calls \<^verbatim>\<open>setCurrentTrace\<close> only.\<close>

definition handle_action_error :: "jsval \<Rightarrow> state \<Rightarrow> state" where
  "handle_action_error data s =
     s\<lparr>currentTrace := map_trace_actions (patch_error data) (currentTrace s)\<rparr>"

subsection \<open>\<^verbatim>\<open>trace_complete\<close> and \<^verbatim>\<open>trace_completed\<close>\<close>

definition handle_trace_complete :: "clock \<Rightarrow> jsval \<Rightarrow> state \<Rightarrow> state" where
  "handle_trace_complete c data s =
     (case currentTrace s of
        None \<Rightarrow> s
      | Some prev \<Rightarrow>
          (let completed = prev\<lparr>status_t := JStr ''completed'',
                                completed_at := or_js (get data ''timestamp'') (JStr (now_iso c)),
                                total_duration_ms := get data ''duration_ms'',
                                summary := get data ''summary'',
                                current_agent := JUndef\<rparr>
           in s\<lparr>allTraces := take 20 (completed # allTraces s),
                 currentTrace := Some completed\<rparr>))"

subsection \<open>The message handler\<close>

text \<open>\<^verbatim>\<open>switch (data.type)\<close> compares with \<^verbatim>\<open>===\<close>; reading \<^verbatim>\<open>type\<close> of \<^verbatim>\<open>null\<close>
  throws. A message of any other type changes nothing.\<close>

definition handleWebSocketMessage :: "runtime \<Rightarrow> clock \<Rightarrow> jsval \<Rightarrow> state \<Rightarrow> js_error + state" where
  "handleWebSocketMessage rt c data s =
     (if nullish data then Inl TypeError
      else let ty = get data ''type'' in
        if ty = JStr ''init'' then handle_init rt data s
        else if ty = JStr ''trace_start'' then Inr (handle_trace_start c data s)
        else if ty = JStr ''trace_started'' then Inr (handle_trace_started c data s)
        else if ty = JStr ''action_start'' \<or> ty = JStr ''action_started'' \<or> ty = JStr ''agent_action''
          then Inr (handle_action_start rt c data s)
        else if ty = JStr ''action_update'' then Inr (handle_action_update rt data s)
        else if ty = JStr ''action_completed'' then Inr (handle_action_completed data s)
        else if ty = JStr ''action_error'' then Inr (handle_action_error data s)
        else if ty = JStr ''trace_complete'' \<or> ty = JStr ''trace_completed''
          then Inr (handle_trace_complete c data s)
        else Inr s)"

text \<open>\<^verbatim>\<open>ws.onmessage\<close> catches what the handler throws and logs it; every throw of the
  handler comes before its first state setter, so the state is the one before.\<close>

definition onmessage :: "runtime \<Rightarrow> clock \<Rightarrow> jsval \<Rightarrow> state \<Rightarrow> state" where
  "onmessage rt c data s =
     (case handleWebSocketMessage rt c data s of Inl e \<Rightarrow> s | Inr s' \<Rightarrow> s')"

subsection \<open>The local methods\<close>

definition startNewTrace :: "clock \<Rightarrow> jsval \<Rightarrow> state \<Rightarrow> state" where
  "startNewTrace c sessionId s =
     s\<lparr>currentTrace := Some
         \<lparr>trace_id = JStr (''trace_'' @ show_nat (now_trace c)),
          session_id = sessionId,
          started_at = JStr (now_iso c),
          completed_at = JUndef,
          status_t = JStr ''running'',
          total_duration_ms = JUndef,
          actions = [],
          current_agent = JUndef,
          summary = JUndef\<rparr>,
        isTraceVisible := True\<rparr>"

text \<open>\<^verbatim>\<open>addAction\<close> takes an action without \<^verbatim>\<open>id\<close> and \<^verbatim>\<open>timestamp\<close>: the two fields of
  its argument are overwritten. It returns the new identifier.\<close>

definition addAction :: "clock \<Rightarrow> AgentAction \<Rightarrow> state \<Rightarrow> jsval \<times> state" where
  "addAction c act s =
     (let (i, s') = generateActionId c s;
          newAction = act\<lparr>a_id := i, timestamp := JStr (now_ts c)\<rparr>
      in (a_id newAction,
          s'\<lparr>currentTrace := append_action c (JStr (''trace_'' @ show_nat (now_trace c))) newAction
                               (currentTrace s'),
             recentActions := push_recent newAction (recentActions s'),
             isTraceVisible := True\<rparr>))"

text \<open>\<^verbatim>\<open>Partial<AgentAction>\<close>: a property the caller gives is \<open>Some\<close>.\<close>

record AgentAction_partial =
  p_id :: "jsval option"
  p_agent :: "jsval option"
  p_action :: "jsval option"
  p_input :: "jsval option"
  p_output :: "jsval option"
  p_status :: "jsval option"
  p_duration_ms :: "jsval option"
  p_timestamp :: "jsval option"
  p_metadata :: "jsval option"

definition spread :: "AgentAction \<Rightarrow> AgentAction_partial \<Rightarrow> AgentAction" where
  "spread a u =
     \<lparr>a_id = (case p_id u of None \<Rightarrow> a_id a | Some v \<Rightarrow> v),
      agent = (case p_agent u of None \<Rightarrow> agent a | Some v \<Rightarrow> v),
      action = (case p_action u of None \<Rightarrow> action a | Some v \<Rightarrow> v),
      input = (case p_input u of None \<Rightarrow> input a | Some v \<Rightarrow> v),
      output_a = (case p_output u of None \<Rightarrow> output_a a | Some v \<Rightarrow> v),
      status = (case p_status u of None \<Rightarrow> status a | Some v \<Rightarrow> v),
      duration_ms = (case p_duration_ms u of None \<Rightarrow> duration_ms a | Some v \<Rightarrow> v),
      timestamp = (case p_timestamp u of None \<Rightarrow> timestamp a | Some v \<Rightarrow> v),
      metadata = (case p_metadata u of None \<Rightarrow> metadata a | Some v \<Rightarrow> v)\<rparr>"

definition patch_local :: "jsval \<Rightarrow> AgentAction_partial \<Rightarrow> AgentAction \<Rightarrow> AgentAction" where
  "patch_local actionId updates a = (if strict_eq (a_id a) actionId then spread a updates else a)"

definition updateAction :: "jsval \<Rightarrow> AgentAction_partial \<Rightarrow> state \<Rightarrow> state" where
  "updateAction actionId updates s =
     s\<lparr>currentTrace := map_trace_actions (patch_local actionId updates) (currentTrace s),
       recentActions := map (patch_local actionId updates) (recentActions s)\<rparr>"

definition completeTrace :: "clock \<Rightarrow> jsval \<Rightarrow> state \<Rightarrow> state" where
  "completeTrace c summ s =
     (case currentTrace s of
        None \<Rightarrow> s
      | Some prev \<Rightarrow>
          (let completed = prev\<lparr>status_t := JStr ''completed'',
                                completed_at := JStr (now_iso c),
                                summary := summ,
                                current_agent := JUndef\<rparr>
           in s\<lparr>allTraces := take 20 (completed # allTraces s),
                 currentTrace := Some completed\<rparr>))"

definition clearTraces :: "state \<Rightarrow> state" where
  "clearTraces s = s\<lparr>allTraces := [], recentActions := []\<rparr>"

subsection \<open>Runs of the reducer\<close>

text \<open>Everything that changes the provider's state: an inbound message, a call of a
  local method, a setter of the two flags, the socket opening or closing.\<close>

datatype stimulus =
    Message jsval
  | StartNewTrace jsval
  | AddAction AgentAction
  | UpdateAction jsval AgentAction_partial
  | CompleteTrace jsval
  | ClearTraces
  | SetTraceVisible bool
  | SetMinimized bool
  | SocketOpen
  | SocketClose

fun step :: "runtime \<Rightarrow> state \<Rightarrow> clock \<times> stimulus \<Rightarrow> state" where
  "step rt s (c, Message data) = onmessage rt c data s"
| "step rt s (c, StartNewTrace sessionId) = startNewTrace c sessionId s"
| "step rt s (c, AddAction act) = snd (addAction c act s)"
| "step rt s (c, UpdateAction actionId updates) = updateAction actionId updates s"
| "step rt s (c, CompleteTrace summ) = completeTrace c summ s"
| "step rt s (c, ClearTraces) = clearTraces s"
| "step rt s (c, SetTraceVisible b) = s\<lparr>isTraceVisible := b\<rparr>"
| "step rt s (c, SetMinimized b) = s\<lparr>isMinimized := b\<rparr>"
| "step rt s (c, SocketOpen) = s\<lparr>isConnected := True\<rparr>"
| "step rt s (c, SocketClose) = s\<lparr>isConnected := False\<rparr>"

definition run :: "runtime \<Rightarrow> state \<Rightarrow> (clock \<times> stimulus) list \<Rightarrow> state" where
  "run rt s evs = foldl (step rt) s evs"

section \<open>The service worker\<close>

text \<open>
  The worker (\<^verbatim>\<open>sw.js\<close>) runs against the platform's cache storage, network and client
  list; \<open>fetched\<close> and \<open>puts\<close> record the calls of \<^verbatim>\<open>fetch\<close> and of \<^verbatim>\<open>cache.put\<close> it
  has made (whether the platform accepted them or not), \<open>console\<close> and \<open>posted\<close> what it has logged and sent to its clients. A request is given by the fields the worker reads; \<open>pathname\<close> is
  \<^verbatim>\<open>new URL(request.url).pathname\<close>. A cache is a key-value store from the request URL
  (every request the worker handles is a GET) to the stored response, and the cache
  storage lists the caches by name in the order of their creation, which is the order
  \<^verbatim>\<open>caches.match\<close> searches them in. A URL of the worker's own origin is written
  relative to it, the way the source writes \<^verbatim>\<open>CORE_ASSETS\<close> and \<^verbatim>\<open>OFFLINE_URL\<close>. Text
  outside ASCII is given by its UTF-8 bytes.
\<close>

record request =
  url :: string
  pathname :: string
  req_method :: string
  mode :: string
  destination :: string

record response =
  body :: string
  status_code :: nat
  headers :: "(string \<times> string) list"

definition ok :: "response \<Rightarrow> bool" where
  "ok r = (200 \<le> status_code r \<and> status_code r \<le> 299)"

type_synonym cache = "(string \<times> response) list"
type_synonym cache_storage = "(string \<times> cache) list"

text \<open>The network answers a URL with a response, or the fetch rejects (\<open>None\<close>).\<close>

type_synonym network = "string \<Rightarrow> response option"

datatype sw_error = FetchFailed | BadResponse

datatype client_message = OFFLINE_PACK_DOWNLOADED string | SYNC_COMPLETE string

datatype phase = Installing | Installed | Activating | Activated | Redundant

record worker =
  caches :: cache_storage
  fetched :: "string list"
  puts :: "(string \<times> string) list"
  console :: "string list"
  clients :: "nat list"
  posted :: "(nat \<times> client_message) list"
  skipWaiting_called :: bool
  claimed :: bool
  phase :: phase

definition CACHE_NAME :: string where "CACHE_NAME = ''syncora-v1''"
definition OFFLINE_URL :: string where "OFFLINE_URL = ''/offline.html''"

definition CORE_ASSETS :: "string list" where
  "CORE_ASSETS =
     [''/'', ''/offline.html'', ''/manifest.json'', ''/icons/icon-192x192.png'',
      ''/icons/icon-512x512.png'']"

definition CACHEABLE_API_PATTERNS :: "string list" where
  "CACHEABLE_API_PATTERNS =
     [''/api/v1/curriculum'', ''/api/v1/offline/packs'', ''/api/v1/offline/prebuilt'']"

definition DYNAMIC_CACHE :: string where "DYNAMIC_CACHE = ''syncora-dynamic-v1''"
definition OFFLINE_PACKS_CACHE :: string where "OFFLINE_PACKS_CACHE = ''syncora-offline-packs-v1''"

subsection \<open>Platform operations\<close>

definition log :: "string \<Rightarrow> worker \<Rightarrow> worker" where
  "log msg w = w\<lparr>console := console w @ [msg]\<rparr>"

definition fetch :: "network \<Rightarrow> string \<Rightarrow> worker \<Rightarrow> response option \<times> worker" where
  "fetch net u w = (net u, w\<lparr>fetched := fetched w @ [u]\<rparr>)"

text \<open>\<^verbatim>\<open>caches.open\<close> creates the cache when there is none of that name.\<close>

definition caches_open :: "string \<Rightarrow> worker \<Rightarrow> worker" where
  "caches_open name w =
     (if name \<in> set (map fst (caches w)) then w else w\<lparr>caches := caches w @ [(name, [])]\<rparr>)"

text \<open>
  The platform refuses to store some pairs of request and response: \<^verbatim>\<open>cache.put\<close> rejects,
  and \<^verbatim>\<open>cache.addAll\<close> too, when the request's URL is not an http or https URL, when the
  response has status 206, and when a \<^verbatim>\<open>Vary\<close> header of the response lists \<^verbatim>\<open>*\<close>. A URL
  relative to the worker's origin has the origin's scheme, which is http or https. Header
  names compare without case; the values of \<^verbatim>\<open>Vary\<close> are split at commas and stripped of
  white space.
\<close>

definition http_url :: "string \<Rightarrow> bool" where
  "http_url u = (prefix ''/'' u \<or> prefix ''http://'' u \<or> prefix ''https://'' u)"

definition lower_char :: "char \<Rightarrow> char" where
  "lower_char ch =
     (if 65 \<le> (of_char ch :: nat) \<and> (of_char ch :: nat) \<le> 90
      then char_of ((of_char ch :: nat) + 32) else ch)"

definition is_ws :: "char \<Rightarrow> bool" where
  "is_ws ch = (ch = CHR '' '' \<or> ch = CHR 0x09 \<or> ch = CHR 0x0A \<or> ch = CHR 0x0D)"

definition trim :: "string \<Rightarrow> string" where
  "trim s = rev (dropWhile is_ws (rev (dropWhile is_ws s)))"

fun split_comma :: "string \<Rightarrow> string list" where
  "split_comma [] = [[]]"
| "split_comma (ch # cs) =
     (if ch = CHR '','' then [] # split_comma cs
      else (case split_comma cs of [] \<Rightarrow> [[ch]] | f # fs \<Rightarrow> (ch # f) # fs))"

definition vary_star :: "response \<Rightarrow> bool" where
  "vary_star r =
     list_ex (\<lambda>(k, v). map lower_char k = ''vary'' \<and>
                        list_ex (\<lambda>f. trim f = ''*'') (split_comma v))
       (headers r)"

definition put_accepted :: "string \<Rightarrow> response \<Rightarrow> bool" where
  "put_accepted key r = (http_url key \<and> status_code r \<noteq> 206 \<and> \<not> vary_star r)"

text \<open>Storing removes the cache's entry for the key and appends the new one.\<close>

definition cache_store :: "string \<Rightarrow> string \<Rightarrow> response \<Rightarrow> worker \<Rightarrow> worker" where
  "cache_store name key r w =
     w\<lparr>caches := AList.map_entry name (\<lambda>c. AList.delete key c @ [(key, r)]) (caches w)\<rparr>"

text \<open>\<^verbatim>\<open>cache.put(request, response.clone())\<close>, which the worker never awaits: when the
  platform rejects, nothing is stored and the rejection is dropped.\<close>

definition cache_put :: "string \<Rightarrow> string \<Rightarrow> response \<Rightarrow> worker \<Rightarrow> worker" where
  "cache_put name key r w =
     (let w' = w\<lparr>puts := puts w @ [(name, key)]\<rparr>
      in if put_accepted key r then cache_store name key r w' else w')"

fun caches_match :: "cache_storage \<Rightarrow> string \<Rightarrow> response option" where
  "caches_match [] key = None"
| "caches_match ((name, c) # cs) key =
     (case map_of c key of Some r \<Rightarrow> Some r | None \<Rightarrow> caches_match cs key)"

definition caches_keys :: "worker \<Rightarrow> string list" where
  "caches_keys w = map fst (caches w)"

definition caches_delete :: "string \<Rightarrow> worker \<Rightarrow> worker" where
  "caches_delete name w = w\<lparr>caches := AList.delete name (caches w)\<rparr>"

text \<open>\<^verbatim>\<open>cache.addAll\<close> rejects at once when one URL is not an http or https URL. Otherwise
  it fetches every URL and stores the responses only when every fetch has answered with
  an ok response that the platform accepts; otherwise it rejects and stores nothing.\<close>

definition addAll :: "network \<Rightarrow> string \<Rightarrow> string list \<Rightarrow> worker \<Rightarrow> (sw_error + unit) \<times> worker" where
  "addAll net name urls w =
     (if \<not> list_all http_url urls then (Inl BadResponse, w)
      else let w1 = w\<lparr>fetched := fetched w @ urls\<rparr>
        in case those (map net urls) of
             None \<Rightarrow> (Inl FetchFailed, w1)
           | Some rs \<Rightarrow>
               if list_all (\<lambda>(u, r). ok r \<and> put_accepted u r) (zip urls rs)
               then (Inr (), fold (\<lambda>(u, r). cache_store name u r) (zip urls rs) w1)
               else (Inl BadResponse, w1))"

text \<open>A promise chain is a computation on the worker that settles with an error or a
  value: \<^verbatim>\<open>p.then(f)\<close> runs \<open>f\<close> when \<open>p\<close> fulfils and passes a rejection on,
  \<^verbatim>\<open>p.catch(h)\<close> runs \<open>h\<close> when \<open>p\<close> rejects and fulfils with what \<open>h\<close> returns.\<close>

type_synonym 'a promise = "worker \<Rightarrow> (sw_error + 'a) \<times> worker"

definition then_p :: "'a promise \<Rightarrow> ('a \<Rightarrow> 'b promise) \<Rightarrow> 'b promise" where
  "then_p p f w = (case p w of (Inl e, w') \<Rightarrow> (Inl e, w') | (Inr x, w') \<Rightarrow> f x w')"

definition catch_p :: "'a promise \<Rightarrow> (sw_error \<Rightarrow> 'a promise) \<Rightarrow> 'a promise" where
  "catch_p p h w = (case p w of (Inl e, w') \<Rightarrow> h e w' | (Inr x, w') \<Rightarrow> (Inr x, w'))"

subsection \<open>Install and activate\<close>

definition install_promise :: "network \<Rightarrow> unit promise" where
  "install_promise net =
     catch_p
       (then_p
          (then_p (\<lambda>w. (Inr CACHE_NAME, caches_open CACHE_NAME w))
             (\<lambda>cache w. addAll net cache CORE_ASSETS (log ''[SW] Caching core assets'' w)))
          (\<lambda>_ w. (Inr (), (log ''[SW] Installation complete'' w)\<lparr>skipWaiting_called := True\<rparr>)))
       (\<lambda>error w. (Inr (), log ''[SW] Installation failed:'' w))"

text \<open>\<^verbatim>\<open>event.waitUntil(p)\<close>: the platform counts the install as failed, and discards the
  worker, exactly when \<open>p\<close> rejects; when \<open>p\<close> fulfils the worker is installed.\<close>

definition on_install :: "network \<Rightarrow> worker \<Rightarrow> worker" where
  "on_install net w =
     (case install_promise net (log ''[SW] Installing Syncora Service Worker...'' w) of
        (Inl e, w') \<Rightarrow> w'\<lparr>phase := Redundant\<rparr>
      | (Inr u, w') \<Rightarrow> w'\<lparr>phase := Installed\<rparr>)"

definition on_activate :: "worker \<Rightarrow> worker" where
  "on_activate w =
     (let w0 = log ''[SW] Activating Syncora Service Worker...'' w;
          cacheNames = caches_keys w0;
          w1 = fold (\<lambda>cacheName w'.
                       if cacheName \<noteq> CACHE_NAME \<and> cacheName \<noteq> DYNAMIC_CACHE \<and>
                          cacheName \<noteq> OFFLINE_PACKS_CACHE
                       then caches_delete cacheName (log (''[SW] Deleting old cache: '' @ cacheName) w')
                       else w')
                 cacheNames w0;
          w2 = log ''[SW] Activation complete'' w1
      in w2\<lparr>claimed := True, phase := Activated\<rparr>)"

subsection \<open>Fetch strategies\<close>

definition isCacheableApi :: "string \<Rightarrow> bool" where
  "isCacheableApi p = list_ex (\<lambda>pattern. prefix pattern p) CACHEABLE_API_PATTERNS"

definition offline_json :: string where
  \<open>offline_json =
       ''{"error":"offline","message":"You are currently offline. Please check your connection.","message_ur":"'' @
       [CHR 0xD8, CHR 0xA2, CHR 0xD9, CHR 0xBE] @
       '' '' @
       [CHR 0xD9, CHR 0x81, CHR 0xDB, CHR 0x8C] @
       '' '' @
       [CHR 0xD8, CHR 0xA7, CHR 0xD9, CHR 0x84, CHR 0xD8, CHR 0xAD, CHR 0xD8, CHR 0xA7, CHR 0xD9, CHR 0x84] @
       '' '' @
       [CHR 0xD8, CHR 0xA2, CHR 0xD9, CHR 0x81] @
       '' '' @
       [CHR 0xD9, CHR 0x84, CHR 0xD8, CHR 0xA7, CHR 0xD8, CHR 0xA6, CHR 0xD9, CHR 0x86] @
       '' '' @
       [CHR 0xDB, CHR 0x81, CHR 0xDB, CHR 0x8C, CHR 0xDA, CHR 0xBA, CHR 0xDB, CHR 0x94] @
       '' '' @
       [CHR 0xD8, CHR 0xA8, CHR 0xD8, CHR 0xB1, CHR 0xD8, CHR 0xA7, CHR 0xDB, CHR 0x81] @
       '' '' @
       [CHR 0xDA, CHR 0xA9, CHR 0xD8, CHR 0xB1, CHR 0xD9, CHR 0x85] @
       '' '' @
       [CHR 0xD8, CHR 0xA7, CHR 0xD9, CHR 0xBE, CHR 0xD9, CHR 0x86, CHR 0xD8, CHR 0xA7] @
       '' '' @
       [CHR 0xDA, CHR 0xA9, CHR 0xD9, CHR 0x86, CHR 0xDA, CHR 0xA9, CHR 0xD8, CHR 0xB4, CHR 0xD9, CHR 0x86] @
       '' '' @
       [CHR 0xDA, CHR 0x86, CHR 0xDB, CHR 0x8C, CHR 0xDA, CHR 0xA9] @
       '' '' @
       [CHR 0xDA, CHR 0xA9, CHR 0xD8, CHR 0xB1, CHR 0xDB, CHR 0x8C, CHR 0xDA, CHR 0xBA, CHR 0xDB, CHR 0x94] @
       ''"}''\<close>

definition handleApiRequest :: "network \<Rightarrow> request \<Rightarrow> worker \<Rightarrow> (sw_error + response) \<times> worker" where
  "handleApiRequest net request w =
     (case fetch net (url request) w of
        (Some response, w1) \<Rightarrow>
          (if ok response \<and> isCacheableApi (pathname request)
           then (Inr response,
                 cache_put DYNAMIC_CACHE (url request) response (caches_open DYNAMIC_CACHE w1))
           else (Inr response, w1))
      | (None, w1) \<Rightarrow>
          (let w2 = log (''[SW] Network failed for API, trying cache: '' @ pathname request) w1
           in case caches_match (caches w2) (url request) of
                Some cachedResponse \<Rightarrow> (Inr cachedResponse, w2)
              | None \<Rightarrow>
                  (Inr \<lparr>body = offline_json, status_code = 503,
                        headers = [(''Content-Type'', ''application/json'')]\<rparr>, w2)))"

definition getOfflineHTML :: string where
  \<open>getOfflineHTML = concat
    [''\<newline>'',
     ''<!DOCTYPE html>\<newline>'',
     ''<html lang="en" dir="ltr">\<newline>'',
     ''<head>\<newline>'',
     ''  <meta charset="UTF-8">\<newline>'',
     ''  <meta name="viewport" content="width=device-width, initial-scale=1.0">\<newline>'',
     ''  <title>Syncora - Offline</title>\<newline>'',
     ''  <style>\<newline>'',
     ''    * {\<newline>'',
     ''      margin: 0;\<newline>'',
     ''      padding: 0;\<newline>'',
     ''      box-sizing: border-box;\<newline>'',
     ''    }\<newline>'',
     ''    \<newline>'',
     ''    body {\<newline>'',
     ''      font-family: -apple-system, BlinkMacSystemFont, 'Segoe UI', Roboto, sans-serif;\<newline>'',
     ''      background: linear-gradient(135deg, #059669 0%, #047857 100%);\<newline>'',
     ''      min-height: 100vh;\<newline>'',
     ''      display: flex;\<newline>'',
     ''      align-items: center;\<newline>'',
     ''      justify-content: center;\<newline>'',
     ''      padding: 20px;\<newline>'',
     ''    }\<newline>'',
     ''    \<newline>'',
     ''    .container {\<newline>'',
     ''      background: white;\<newline>'',
     ''      border-radius: 20px;\<newline>'',
     ''      padding: 40px;\<newline>'',
     ''      max-width: 500px;\<newline>'',
     ''      text-align: center;\<newline>'',
     ''      box-shadow: 0 25px 50px -12px rgba(0, 0, 0, 0.25);\<newline>'',
     ''    }\<newline>'',
     ''    \<newline>'',
     ''    .icon {\<newline>'',
     ''      font-size: 80px;\<newline>'',
     ''      margin-bottom: 20px;\<newline>'',
     ''    }\<newline>'',
     ''    \<newline>'',
     ''    h1 {\<newline>'',
     ''      color: #1f2937;\<newline>'',
     ''      font-size: 28px;\<newline>'',
     ''      margin-bottom: 10px;\<newline>'',
     ''    }\<newline>'',
     ''    \<newline>'',
     ''    .urdu {\<newline>'',
     ''      font-family: 'Noto Nastaliq Urdu', serif;\<newline>'',
     ''      direction: rtl;\<newline>'',
     ''      color: #374151;\<newline>'',
     ''      font-size: 22px;\<newline>'',
     ''      margin-bottom: 20px;\<newline>'',
     ''    }\<newline>'',
     ''    \<newline>'',
     ''    p {\<newline>'',
     ''      color: #6b7280;\<newline>'',
     ''      line-height: 1.6;\<newline>'',
     ''      margin-bottom: 30px;\<newline>'',
     ''    }\<newline>'',
     ''    \<newline>'',
     ''    .features {\<newline>'',
     ''      background: #f3f4f6;\<newline>'',
     ''      border-radius: 12px;\<newline>'',
     ''      padding: 20px;\<newline>'',
     ''      margin-bottom: 30px;\<newline>'',
     ''      text-align: left;\<newline>'',
     ''    }\<newline>'',
     ''    \<newline>'',
     ''    .features h3 {\<newline>'',
     ''      color: #059669;\<newline>'',
     ''      margin-bottom: 15px;\<newline>'',
     ''      font-size: 16px;\<newline>'',
     ''    }\<newline>'',
     ''    \<newline>'',
     ''    .feature-item {\<newline>'',
     ''      display: flex;\<newline>'',
     ''      align-items: center;\<newline>'',
     ''      margin-bottom: 10px;\<newline>'',
     ''      color: #374151;\<newline>'',
     ''      font-size: 14px;\<newline>'',
     ''    }\<newline>'',
     ''    \<newline>'',
     ''    .feature-item span {\<newline>'',
     ''      margin-right: 10px;\<newline>'',
     ''    }\<newline>'',
     ''    \<newline>'',
     ''    .btn {\<newline>'',
     ''      display: inline-block;\<newline>'',
     ''      background: #059669;\<newline>'',
     ''      color: white;\<newline>'',
     ''      padding: 14px 28px;\<newline>'',
     ''      border-radius: 10px;\<newline>'',
     ''      text-decoration: none;\<newline>'',
     ''      font-weight: 600;\<newline>'',
     ''      transition: all 0.3s;\<newline>'',
     ''    }\<newline>'',
     ''    \<newline>'',
     ''    .btn:hover {\<newline>'',
     ''      background: #047857;\<newline>'',
     ''      transform: translateY(-2px);\<newline>'',
     ''    }\<newline>'',
     ''    \<newline>'',
     ''    .status {\<newline>'',
     ''      margin-top: 20px;\<newline>'',
     ''      padding: 10px;\<newline>'',
     ''      border-radius: 8px;\<newline>'',
     ''      font-size: 14px;\<newline>'',
     ''    }\<newline>'',
     ''    \<newline>'',
     ''    .status.offline {\<newline>'',
     ''      background: #fef3c7;\<newline>'',
     ''      color: #92400e;\<newline>'',
     ''    }\<newline>'',
     ''    \<newline>'',
     ''    .status.online {\<newline>'',
     ''      background: #d1fae5;\<newline>'',
     ''      color: #065f46;\<newline>'',
     ''    }\<newline>'',
     ''  </style>\<newline>'',
     ''</head>\<newline>'',
     ''<body>\<newline>'',
     ''  <div class="container">\<newline>'',
     ''    <div class="icon">'' @ [CHR 0xF0, CHR 0x9F, CHR 0x93, CHR 0x9A] @ ''</div>\<newline>'',
     ''    <h1>You're Offline</h1>\<newline>'',
     ''    <p class="urdu">'' @ [CHR 0xD8, CHR 0xA2, CHR 0xD9, CHR 0xBE] @ '' '' @ [CHR 0xD8, CHR 0xA2, CHR 0xD9, CHR 0x81] @ '' '' @ [CHR 0xD9, CHR 0x84, CHR 0xD8, CHR 0xA7, CHR 0xD8, CHR 0xA6, CHR 0xD9, CHR 0x86] @ '' '' @ [CHR 0xDB, CHR 0x81, CHR 0xDB, CHR 0x8C, CHR 0xDA, CHR 0xBA] @ ''</p>\<newline>'',
     ''    <p>Don't worry! Your learning doesn't have to stop. Syncora has offline capabilities to keep you learning.</p>\<newline>'',
     ''    \<newline>'',
     ''    <div class="features">\<newline>'',
     ''      <h3>'' @ [CHR 0xF0, CHR 0x9F, CHR 0x93, CHR 0xA5] @ '' Available Offline Features:</h3>\<newline>'',
     ''      <div class="feature-item">\<newline>'',
     ''        <span>'' @ [CHR 0xE2, CHR 0x9C, CHR 0x85] @ ''</span> View cached lessons\<newline>'',
     ''      </div>\<newline>'',
     ''      <div class="feature-item">\<newline>'',
     ''        <span>'' @ [CHR 0xE2, CHR 0x9C, CHR 0x85] @ ''</span> Access downloaded content packs\<newline>'',
     ''      </div>\<newline>'',
     ''      <div class="feature-item">\<newline>'',
     ''        <span>'' @ [CHR 0xE2, CHR 0x9C, CHR 0x85] @ ''</span> Review your study notes\<newline>'',
     ''      </div>\<newline>'',
     ''      <div class="feature-item">\<newline>'',
     ''        <span>'' @ [CHR 0xE2, CHR 0x9C, CHR 0x85] @ ''</span> Practice with saved problems\<newline>'',
     ''      </div>\<newline>'',
     ''    </div>\<newline>'',
     ''    \<newline>'',
     ''    <button class="btn" onclick="window.location.reload()">\<newline>'',
     ''      '' @ [CHR 0xF0, CHR 0x9F, CHR 0x94, CHR 0x84] @ '' Try Again\<newline>'',
     ''    </button>\<newline>'',
     ''    \<newline>'',
     ''    <div id="status" class="status offline">\<newline>'',
     ''      '' @ [CHR 0xF0, CHR 0x9F, CHR 0x94, CHR 0xB4] @ '' Currently Offline\<newline>'',
     ''    </div>\<newline>'',
     ''  </div>\<newline>'',
     ''  \<newline>'',
     ''  <script>\<newline>'',
     ''    // Check online status\<newline>'',
     ''    function updateStatus() {\<newline>'',
     ''      const statusEl = document.getElementById('status');\<newline>'',
     ''      if (navigator.onLine) {\<newline>'',
     ''        statusEl.className = 'status online';\<newline>'',
     ''        statusEl.textContent = '' @ [CHR 0x27, CHR 0xF0, CHR 0x9F, CHR 0x9F, CHR 0xA2] @ '' Back Online - Refreshing...';\<newline>'',
     ''        setTimeout(() => window.location.reload(), 1000);\<newline>'',
     ''      } else {\<newline>'',
     ''        statusEl.className = 'status offline';\<newline>'',
     ''        statusEl.textContent = '' @ [CHR 0x27, CHR 0xF0, CHR 0x9F, CHR 0x94, CHR 0xB4] @ '' Currently Offline';\<newline>'',
     ''      }\<newline>'',
     ''    }\<newline>'',
     ''    \<newline>'',
     ''    window.addEventListener('online', updateStatus);\<newline>'',
     ''    window.addEventListener('offline', updateStatus);\<newline>'',
     ''    updateStatus();\<newline>'',
     ''  </script>\<newline>'',
     ''</body>\<newline>'',
     ''</html>\<newline>'',
     ''  '']\<close>

definition handleNavigationRequest :: "network \<Rightarrow> request \<Rightarrow> worker \<Rightarrow> (sw_error + response) \<times> worker" where
  "handleNavigationRequest net request w =
     (case fetch net (url request) w of
        (Some response, w1) \<Rightarrow>
          (if ok response
           then (Inr response,
                 cache_put DYNAMIC_CACHE (url request) response (caches_open DYNAMIC_CACHE w1))
           else (Inr response, w1))
      | (None, w1) \<Rightarrow>
          (let w2 = log ''[SW] Network failed for navigation, trying cache'' w1
           in case caches_match (caches w2) (url request) of
                Some cachedResponse \<Rightarrow> (Inr cachedResponse, w2)
              | None \<Rightarrow>
                  (case caches_match (caches w2) OFFLINE_URL of
                     Some offlineResponse \<Rightarrow> (Inr offlineResponse, w2)
                   | None \<Rightarrow>
                       (Inr \<lparr>body = getOfflineHTML, status_code = 200,
                             headers = [(''Content-Type'', ''text/html'')]\<rparr>, w2))))"

text \<open>\<^verbatim>\<open>fetchAndCache\<close> is started and not awaited: it runs in the background, and what it
  throws is dropped.\<close>

definition fetchAndCache :: "network \<Rightarrow> request \<Rightarrow> worker \<Rightarrow> worker" where
  "fetchAndCache net request w =
     (case fetch net (url request) w of
        (Some response, w1) \<Rightarrow>
          (if ok response
           then cache_put DYNAMIC_CACHE (url request) response (caches_open DYNAMIC_CACHE w1)
           else w1)
      | (None, w1) \<Rightarrow> w1)"

definition offline_svg :: string where
  \<open>offline_svg =
     ''<svg xmlns="http://www.w3.org/2000/svg" width="100" height="100"><rect fill="#ddd" width="100" height="100"/><text x="50" y="50" text-anchor="middle" fill="#888">Offline</text></svg>''\<close>

definition handleStaticAssets :: "network \<Rightarrow> request \<Rightarrow> worker \<Rightarrow> (sw_error + response) \<times> worker" where
  "handleStaticAssets net request w =
     (case caches_match (caches w) (url request) of
        Some cachedResponse \<Rightarrow> (Inr cachedResponse, fetchAndCache net request w)
      | None \<Rightarrow>
          (case fetch net (url request) w of
             (Some response, w1) \<Rightarrow>
               (if ok response
                then (Inr response,
                      cache_put DYNAMIC_CACHE (url request) response (caches_open DYNAMIC_CACHE w1))
                else (Inr response, w1))
           | (None, w1) \<Rightarrow>
               (let w2 = log (''[SW] Failed to fetch static asset: '' @ url request) w1
                in if destination request = ''image''
                   then (Inr \<lparr>body = offline_svg, status_code = 200,
                              headers = [(''Content-Type'', ''image/svg+xml'')]\<rparr>, w2)
                   else (Inl FetchFailed, w2))))"

definition handleOfflinePackDownload :: "network \<Rightarrow> request \<Rightarrow> worker \<Rightarrow> (sw_error + response) \<times> worker" where
  "handleOfflinePackDownload net request w =
     (case fetch net (url request) w of
        (Some response, w1) \<Rightarrow>
          (if ok response
           then (let w2 = cache_put OFFLINE_PACKS_CACHE (url request) response
                            (caches_open OFFLINE_PACKS_CACHE w1)
                 in (Inr response,
                     w2\<lparr>posted := posted w2 @
                          map (\<lambda>client. (client, OFFLINE_PACK_DOWNLOADED (url request))) (clients w2)\<rparr>))
           else (Inr response, w1))
      | (None, w1) \<Rightarrow>
          (case caches_match (caches w1) (url request) of
             Some cachedResponse \<Rightarrow> (Inr cachedResponse, w1)
           | None \<Rightarrow> (Inl FetchFailed, w1)))"

subsection \<open>The fetch listener\<close>

fun includes_str :: "string \<Rightarrow> string \<Rightarrow> bool" where
  "includes_str [] p = (p = [])"
| "includes_str (c # cs) p = (prefix p (c # cs) \<or> includes_str cs p)"

datatype fetch_outcome = NotIntercepted | RespondWith "sw_error + response"

definition respondWith :: "(sw_error + response) \<times> worker \<Rightarrow> fetch_outcome \<times> worker" where
  "respondWith rw = (RespondWith (fst rw), snd rw)"

definition on_fetch :: "network \<Rightarrow> request \<Rightarrow> worker \<Rightarrow> fetch_outcome \<times> worker" where
  "on_fetch net request w =
     (if req_method request \<noteq> ''GET'' then (NotIntercepted, w)
      else if prefix ''/api/'' (pathname request) then respondWith (handleApiRequest net request w)
      else if includes_str (pathname request) ''/offline/download''
        then respondWith (handleOfflinePackDownload net request w)
      else if mode request = ''navigate'' then respondWith (handleNavigationRequest net request w)
      else respondWith (handleStaticAssets net request w))"

section \<open>Concrete inputs\<close>

text \<open>Inputs at which the statements below are evaluated.\<close>

definition demo_runtime :: runtime where
  "demo_runtime = \<lparr>stringify = (\<lambda>v. JStr ''{}''), to_number = (\<lambda>v. None)\<rparr>"

definition demo_clock :: clock where
  "demo_clock =
     \<lparr>now_id = 1700000000000, now_ts = ''2024-01-01T00:00:00.000Z'',
      now_trace = 1700000000000, now_iso = ''2024-01-01T00:00:00.000Z''\<rparr>"

definition msg_trace_started :: jsval where
  "msg_trace_started =
     JObj [(''type'', JStr ''trace_started''), (''trace_id'', JStr ''T1''),
           (''session_id'', JStr ''S1'')]"

definition msg_trace_completed :: jsval where
  "msg_trace_completed = JObj [(''type'', JStr ''trace_completed''), (''summary'', JStr ''done'')]"

definition msg_action_start :: jsval where
  "msg_action_start =
     JObj [(''type'', JStr ''action_start''),
           (''action'', JObj [(''id'', JStr ''a1''), (''agent'', JStr ''tutor''),
                              (''action'', JStr ''explain'')])]"

definition msg_trace_complete :: jsval where
  "msg_trace_complete =
     JObj [(''type'', JStr ''trace_complete''), (''duration_ms'', JNum 1200),
           (''summary'', JStr ''done'')]"

definition msg_action_error :: jsval where
  "msg_action_error =
     JObj [(''type'', JStr ''action_error''), (''action_id'', JStr ''a1''),
           (''error'', JStr ''boom'')]"

definition demo_action :: AgentAction where
  "demo_action =
     \<lparr>a_id = JStr ''a0'', agent = JStr ''manager'', action = JStr ''Analyzing request'',
      input = JStr ''q'', output_a = JUndef, status = JStr ''running'', duration_ms = JUndef,
      timestamp = JStr ''2024-01-01T00:00:00.000Z'', metadata = JUndef\<rparr>"

definition demo_trace :: AgentTrace where
  "demo_trace =
     \<lparr>trace_id = JStr ''T1'', session_id = JStr ''S1'',
      started_at = JStr ''2024-01-01T00:00:00.000Z'', completed_at = JUndef,
      status_t = JStr ''completed'', total_duration_ms = JUndef, actions = [demo_action],
      current_agent = JUndef, summary = JUndef\<rparr>"

definition full_state :: state where
  "full_state = initial_state\<lparr>currentTrace := Some demo_trace,
                              recentActions := replicate 50 demo_action\<rparr>"

definition fresh_worker :: worker where
  "fresh_worker =
     \<lparr>caches = [], fetched = [], puts = [], console = [], clients = [], posted = [],
      skipWaiting_called = False, claimed = False, phase = Installing\<rparr>"

definition page :: response where
  "page = \<lparr>body = ''hello'', status_code = 200, headers = [(''Content-Type'', ''text/plain'')]\<rparr>"

definition stale_page :: response where
  "stale_page = \<lparr>body = ''old'', status_code = 200, headers = [(''Content-Type'', ''text/plain'')]\<rparr>"

definition net_up :: network where
  "net_up u = Some page"

definition net_down :: network where
  "net_down u = None"

definition net_manifest_down :: network where
  "net_manifest_down u = (if u = ''/manifest.json'' then None else Some page)"

definition req_curriculum :: request where
  "req_curriculum =
     \<lparr>url = ''/api/v1/curriculum/units?grade=9'', pathname = ''/api/v1/curriculum/units'',
      req_method = ''GET'', mode = ''cors'', destination = []\<rparr>"

definition req_chat :: request where
  "req_chat =
     \<lparr>url = ''/api/v1/chat/history'', pathname = ''/api/v1/chat/history'',
      req_method = ''GET'', mode = ''cors'', destination = []\<rparr>"

definition req_script :: request where
  "req_script =
     \<lparr>url = ''/static/app.js'', pathname = ''/static/app.js'',
      req_method = ''GET'', mode = ''no-cors'', destination = ''script''\<rparr>"

definition req_dashboard :: request where
  "req_dashboard =
     \<lparr>url = ''/dashboard'', pathname = ''/dashboard'',
      req_method = ''GET'', mode = ''navigate'', destination = ''document''\<rparr>"


definition worker_with_old_caches :: worker where
  "worker_with_old_caches =
     fresh_worker\<lparr>caches := [(''syncora-v0'', [(''/'', stale_page)]), (CACHE_NAME, [(''/'', page)]),
                             (''syncora-dynamic-v0'', []), (DYNAMIC_CACHE, [(''/dashboard'', page)])]\<rparr>"

definition partial_page :: response where
  "partial_page =
     \<lparr>body = ''hel'', status_code = 206,
      headers = [(''Content-Type'', ''text/plain''), (''Content-Range'', ''bytes 0-2/5'')]\<rparr>"

definition net_partial :: network where
  "net_partial u = Some partial_page"

definition worker_with_core_script :: worker where
  "worker_with_core_script = fresh_worker\<lparr>caches := [(CACHE_NAME, [(''/static/app.js'', stale_page)])]\<rparr>"

section \<open>Properties of the trace reducer\<close>

lemmas reducer_defs = run_def onmessage_def handleWebSocketMessage_def handle_init_def
  handle_trace_start_def handle_trace_started_def handle_action_start_def event_action_def
  append_action_def push_recent_def handle_action_update_def handle_action_completed_def
  handle_action_error_def handle_trace_complete_def map_trace_actions_def patch_update_def
  patch_completed_def patch_error_def updateStatus_def or_js_def initial_state_def
  generateActionId_def Let_def

lemmas demo_message_defs = demo_runtime_def demo_clock_def msg_trace_started_def
  msg_trace_completed_def msg_action_start_def

lemma typed_not_nullish: "get data ''type'' = JStr k \<Longrightarrow> \<not> nullish data"
  by (cases data) auto

lemma event_action_keeps_trace:
  "currentTrace (snd (event_action rt c data s)) = currentTrace s"
  by (simp add: event_action_def Let_def generateActionId_def split: prod.splits if_splits)

lemma event_action_keeps_recent:
  "recentActions (snd (event_action rt c data s)) = recentActions s"
  by (simp add: event_action_def Let_def generateActionId_def split: prod.splits if_splits)



lemma trace_handle_action_start:
  "currentTrace (handle_action_start rt c data s) =
     append_action c (or_js (get data ''trace_id'') (JStr (''trace_'' @ show_nat (now_trace c))))
       (fst (event_action rt c data s)) (currentTrace s)"
  using event_action_keeps_trace [of rt c data s]
  by (cases "event_action rt c data s") (simp add: handle_action_start_def Let_def)

lemma onmessage_action_start:
  assumes "get data ''type'' \<in> {JStr ''action_start'', JStr ''action_started'', JStr ''agent_action''}"
  shows "onmessage rt c data s = handle_action_start rt c data s"
proof -
  from assms have "\<not> nullish data" by (auto dest: typed_not_nullish)
  with assms show ?thesis
    by (auto simp: onmessage_def handleWebSocketMessage_def Let_def)
qed







subsection \<open>The two copies of an action\<close>

text \<open>The \<^verbatim>\<open>action_completed\<close> case writes the same patch to the trace and to the buffer:
  two copies of the action named by the event agree afterwards.\<close>

lemma action_completed_dual_write:
  assumes "get data ''type'' = JStr ''action_completed''"
    and "currentTrace s = Some t"
  shows "currentTrace (onmessage rt c data s) =
           Some (t\<lparr>actions := map (patch_completed data) (actions t)\<rparr>)
         \<and> recentActions (onmessage rt c data s) = map (patch_completed data) (recentActions s)
         \<and> (strict_eq (a_id a) (get data ''action_id'') \<longrightarrow>
            strict_eq (a_id b) (get data ''action_id'') \<longrightarrow>
              status (patch_completed data a) = status (patch_completed data b) \<and>
              output_a (patch_completed data a) = output_a (patch_completed data b) \<and>
              duration_ms (patch_completed data a) = duration_ms (patch_completed data b))"
  using assms
  by (auto simp: onmessage_def handleWebSocketMessage_def handle_action_completed_def Let_def
      map_trace_actions_def patch_completed_def dest: typed_not_nullish)

text \<open>So does the \<^verbatim>\<open>action_update\<close> case; an event without a truthy \<^verbatim>\<open>output\<close> leaves
  to each copy the output it had.\<close>

lemma action_update_dual_write:
  assumes "get data ''type'' = JStr ''action_update''"
    and "currentTrace s = Some t"
  shows "currentTrace (onmessage rt c data s) =
           Some (t\<lparr>actions := map (patch_update rt data) (actions t)\<rparr>)
         \<and> recentActions (onmessage rt c data s) = map (patch_update rt data) (recentActions s)
         \<and> (strict_eq (a_id a) (get data ''action_id'') \<longrightarrow>
            strict_eq (a_id b) (get data ''action_id'') \<longrightarrow>
            truthy (get data ''output'') \<or> output_a a = output_a b \<longrightarrow>
              status (patch_update rt data a) = status (patch_update rt data b) \<and>
              output_a (patch_update rt data a) = output_a (patch_update rt data b) \<and>
              duration_ms (patch_update rt data a) = duration_ms (patch_update rt data b))"
  using assms
  by (auto simp: onmessage_def handleWebSocketMessage_def handle_action_update_def Let_def
      map_trace_actions_def patch_update_def dest: typed_not_nullish)

text \<open>The \<^verbatim>\<open>action_error\<close> case leaves the buffer as it is, whatever the state.\<close>

lemma action_error_keeps_recent:
  assumes "get data ''type'' = JStr ''action_error''"
  shows "recentActions (onmessage rt c data s) = recentActions s"
  using assms
  by (auto simp: onmessage_def handleWebSocketMessage_def handle_action_error_def Let_def
      dest: typed_not_nullish)

text \<open>
  C1. After an \<^verbatim>\<open>action_update\<close>, \<^verbatim>\<open>action_completed\<close> or \<^verbatim>\<open>action_error\<close> event for an
  action held both in the current trace and in the buffer of recent actions, the two
  copies should record the same status, output and duration. The \<^verbatim>\<open>action_error\<close> case
  does not: after an \<^verbatim>\<open>action_start\<close> for \<open>a1\<close> and an \<^verbatim>\<open>action_error\<close> for \<open>a1\<close> with
  error \<open>boom\<close>, the trace's copy has status \<open>error\<close> and output \<open>boom\<close>, while the
  buffer's copy still has status \<open>running\<close> and no output.
\<close>

theorem action_error_leaves_recent_copy_stale:
  "map a_id (actions (the (currentTrace (run demo_runtime initial_state
      [(demo_clock, Message msg_action_start), (demo_clock, Message msg_action_error)]))))
     = [JStr ''a1'']
   \<and> map a_id (recentActions (run demo_runtime initial_state
      [(demo_clock, Message msg_action_start), (demo_clock, Message msg_action_error)]))
     = [JStr ''a1'']
   \<and> map status (actions (the (currentTrace (run demo_runtime initial_state
      [(demo_clock, Message msg_action_start), (demo_clock, Message msg_action_error)]))))
     = [JStr ''error'']
   \<and> map status (recentActions (run demo_runtime initial_state
      [(demo_clock, Message msg_action_start), (demo_clock, Message msg_action_error)]))
     = [JStr ''running'']
   \<and> map output_a (actions (the (currentTrace (run demo_runtime initial_state
      [(demo_clock, Message msg_action_start), (demo_clock, Message msg_action_error)]))))
     = [JStr ''boom'']
   \<and> map output_a (recentActions (run demo_runtime initial_state
      [(demo_clock, Message msg_action_start), (demo_clock, Message msg_action_error)]))
     = [JUndef]"
  by (simp add: reducer_defs demo_message_defs msg_action_error_def)

subsection \<open>The buffer of recent actions\<close>



subsection \<open>Appending actions\<close>

text \<open>
  C9. From a state with no current trace and an empty buffer, one \<^verbatim>\<open>action_start\<close>
  message gives a new trace that holds exactly one action, the one of the message, and a
  buffer of length 1 that holds the same action. The action is the message's: its
  identifier is the one the message carries (\<^verbatim>\<open>data.action?.id || data.action_id\<close>, and
  a generated one only when the message carries none), and its agent, action text, input,
  timestamp and metadata are read from the message.
\<close>

theorem action_start_on_empty_state:
  assumes "currentTrace s = None" and "recentActions s = []"
    and "get data ''type'' = JStr ''action_start''"
  shows "\<exists>s' t a. handleWebSocketMessage rt c data s = Inr s' \<and> onmessage rt c data s = s' \<and>
           currentTrace s' = Some t \<and> actions t = [a] \<and> recentActions s' = [a] \<and>
           length (recentActions s') = 1 \<and> map a_id (recentActions s') = map a_id (actions t) \<and>
           a_id a =
             (if truthy (or_js (get (get data ''action'') ''id'') (get data ''action_id''))
              then or_js (get (get data ''action'') ''id'') (get data ''action_id'')
              else JStr (''action_'' @ show_nat (now_id c) @ ''_'' @
                         show_nat (actionIdCounter s + 1))) \<and>
           agent a = or_js (get (get data ''action'') ''agent'') (get data ''agent'') \<and>
           action a = or_js (get (get data ''action'') ''action'') (get data ''action'') \<and>
           input a =
             (if truthy (get (get data ''action'') ''input'')
              then stringify rt (get (get data ''action'') ''input'') else get data ''input'') \<and>
           output_a a = JUndef \<and> status a = JStr ''running'' \<and> duration_ms a = JUndef \<and>
           timestamp a =
             or_js (or_js (get (get data ''action'') ''started_at'') (get data ''timestamp''))
               (JStr (now_ts c)) \<and>
           metadata a = get data ''metadata'' \<and>
           trace_id t =
             or_js (get data ''trace_id'') (JStr (''trace_'' @ show_nat (now_trace c))) \<and>
           status_t t = JStr ''running'' \<and> current_agent t = agent a"
proof -
  from assms(3) have nn: "\<not> nullish data" by (rule typed_not_nullish)
  obtain a s1 where ea: "event_action rt c data s = (a, s1)"
    by (cases "event_action rt c data s")
  have s1: "currentTrace s1 = None" "recentActions s1 = []"
    using ea assms(1,2) event_action_keeps_trace [of rt c data s]
      event_action_keeps_recent [of rt c data s] by simp_all
  have a: "a = fst (event_action rt c data s)"
    using ea by simp
  have fields:
    "a_id a =
       (if truthy (or_js (get (get data ''action'') ''id'') (get data ''action_id''))
        then or_js (get (get data ''action'') ''id'') (get data ''action_id'')
        else JStr (''action_'' @ show_nat (now_id c) @ ''_'' @ show_nat (actionIdCounter s + 1)))"
    "agent a = or_js (get (get data ''action'') ''agent'') (get data ''agent'')"
    "action a = or_js (get (get data ''action'') ''action'') (get data ''action'')"
    "input a =
       (if truthy (get (get data ''action'') ''input'')
        then stringify rt (get (get data ''action'') ''input'') else get data ''input'')"
    "output_a a = JUndef" "status a = JStr ''running''" "duration_ms a = JUndef"
    "timestamp a =
       or_js (or_js (get (get data ''action'') ''started_at'') (get data ''timestamp''))
         (JStr (now_ts c))"
    "metadata a = get data ''metadata''"
    unfolding a by (simp_all add: event_action_def generateActionId_def Let_def split: prod.splits)
  from nn assms(3) ea s1 fields show ?thesis
    by (simp add: onmessage_def handleWebSocketMessage_def handle_action_start_def Let_def
        append_action_def push_recent_def)
qed

theorem action_start_on_empty_state_witness:
  "currentTrace initial_state = None \<and> recentActions initial_state = [] \<and>
   get msg_action_start ''type'' = JStr ''action_start'' \<and>
   get (get msg_action_start ''action'') ''id'' = JStr ''a1'' \<and>
   length (recentActions (onmessage demo_runtime demo_clock msg_action_start initial_state)) = 1 \<and>
   map a_id (recentActions (onmessage demo_runtime demo_clock msg_action_start initial_state))
     = [JStr ''a1''] \<and>
   (\<exists>t. currentTrace (onmessage demo_runtime demo_clock msg_action_start initial_state) = Some t \<and>
        map a_id (actions t) = [JStr ''a1''] \<and> map agent (actions t) = [JStr ''tutor''] \<and>
        map action (actions t) = [JStr ''explain''] \<and> map status (actions t) = [JStr ''running''])"
proof -
  have h: "currentTrace initial_state = None" "recentActions initial_state = []"
    "get msg_action_start ''type'' = JStr ''action_start''"
    by (simp_all add: initial_state_def msg_action_start_def)
  have carried: "get (get msg_action_start ''action'') ''id'' = JStr ''a1''"
    "get (get msg_action_start ''action'') ''agent'' = JStr ''tutor''"
    "get (get msg_action_start ''action'') ''action'' = JStr ''explain''"
    by (simp_all add: msg_action_start_def)
  from action_start_on_empty_state [OF h, of demo_runtime demo_clock]
  obtain s' t a where r: "onmessage demo_runtime demo_clock msg_action_start initial_state = s'"
    "currentTrace s' = Some t" "actions t = [a]" "recentActions s' = [a]"
    "a_id a =
       (if truthy (or_js (get (get msg_action_start ''action'') ''id'')
                     (get msg_action_start ''action_id''))
        then or_js (get (get msg_action_start ''action'') ''id'') (get msg_action_start ''action_id'')
        else JStr (''action_'' @ show_nat (now_id demo_clock) @ ''_'' @
                   show_nat (actionIdCounter initial_state + 1)))"
    "agent a = or_js (get (get msg_action_start ''action'') ''agent'') (get msg_action_start ''agent'')"
    "action a = or_js (get (get msg_action_start ''action'') ''action'') (get msg_action_start ''action'')"
    "status a = JStr ''running''"
    by blast
  from r(5,6,7) carried have "a_id a = JStr ''a1''" "agent a = JStr ''tutor''"
    "action a = JStr ''explain''"
    by (simp_all add: or_js_def)
  with r(1,2,3,4,8) h carried(1) show ?thesis by simp
qed

text \<open>
  C8 as stated (actions are appended to the current trace only while its status is
  \<open>running\<close>) fails: after \<^verbatim>\<open>trace_started\<close> and \<^verbatim>\<open>trace_completed\<close> the trace \<open>T1\<close> has
  status \<open>completed\<close> and no action, and an \<^verbatim>\<open>action_start\<close> message then appends an
  action to that same trace, whose status stays \<open>completed\<close>.
\<close>

theorem action_appended_to_completed_trace:
  "currentTrace (run demo_runtime initial_state
      [(demo_clock, Message msg_trace_started), (demo_clock, Message msg_trace_completed)])
   = Some \<lparr>trace_id = JStr ''T1'', session_id = JStr ''S1'',
           started_at = JStr ''2024-01-01T00:00:00.000Z'',
           completed_at = JStr ''2024-01-01T00:00:00.000Z'', status_t = JStr ''completed'',
           total_duration_ms = JUndef, actions = [], current_agent = JUndef,
           summary = JStr ''done''\<rparr>
   \<and> currentTrace (run demo_runtime initial_state
      [(demo_clock, Message msg_trace_started), (demo_clock, Message msg_trace_completed),
       (demo_clock, Message msg_action_start)])
   = Some \<lparr>trace_id = JStr ''T1'', session_id = JStr ''S1'',
           started_at = JStr ''2024-01-01T00:00:00.000Z'',
           completed_at = JStr ''2024-01-01T00:00:00.000Z'', status_t = JStr ''completed'',
           total_duration_ms = JUndef,
           actions = [\<lparr>a_id = JStr ''a1'', agent = JStr ''tutor'', action = JStr ''explain'',
                       input = JUndef, output_a = JUndef, status = JStr ''running'',
                       duration_ms = JUndef, timestamp = JStr ''2024-01-01T00:00:00.000Z'',
                       metadata = JUndef\<rparr>],
           current_agent = JStr ''tutor'', summary = JStr ''done''\<rparr>"
  by (simp add: reducer_defs demo_message_defs)

text \<open>
  C8, amended. The reducer never reads a trace's status: an action-start message
  (\<^verbatim>\<open>action_start\<close>, \<^verbatim>\<open>action_started\<close>, \<^verbatim>\<open>agent_action\<close>) and a local \<^verbatim>\<open>addAction\<close> call
  append the new action to the current trace whatever its status is, set
  \<^verbatim>\<open>current_agent\<close>, and change nothing else of the trace, its status included.
\<close>

theorem action_start_appends_in_any_status:
  assumes "currentTrace s = Some t"
  shows "(get data ''type'' \<in> {JStr ''action_start'', JStr ''action_started'', JStr ''agent_action''} \<longrightarrow>
            currentTrace (onmessage rt c data s) =
              Some (t\<lparr>current_agent := agent (fst (event_action rt c data s)),
                      actions := actions t @ [fst (event_action rt c data s)]\<rparr>))
         \<and> currentTrace (snd (addAction c act s)) =
              Some (t\<lparr>current_agent := agent act,
                      actions := actions t @
                        [act\<lparr>a_id := fst (generateActionId c s), timestamp := JStr (now_ts c)\<rparr>]\<rparr>)"
proof (intro conjI impI)
  assume "get data ''type'' \<in> {JStr ''action_start'', JStr ''action_started'', JStr ''agent_action''}"
  then show "currentTrace (onmessage rt c data s) =
              Some (t\<lparr>current_agent := agent (fst (event_action rt c data s)),
                      actions := actions t @ [fst (event_action rt c data s)]\<rparr>)"
    using assms
    by (simp only: onmessage_action_start trace_handle_action_start)
       (simp add: append_action_def)
next
  show "currentTrace (snd (addAction c act s)) =
              Some (t\<lparr>current_agent := agent act,
                      actions := actions t @
                        [act\<lparr>a_id := fst (generateActionId c s), timestamp := JStr (now_ts c)\<rparr>]\<rparr>)"
    using assms by (simp add: addAction_def generateActionId_def Let_def append_action_def)
qed

theorem action_start_appends_in_any_status_witness:
  "currentTrace full_state = Some demo_trace \<and> status_t demo_trace = JStr ''completed''
   \<and> get msg_action_start ''type'' \<in> {JStr ''action_start'', JStr ''action_started'', JStr ''agent_action''}
   \<and> currentTrace (onmessage demo_runtime demo_clock msg_action_start full_state) =
       Some (demo_trace\<lparr>current_agent := agent (fst (event_action demo_runtime demo_clock msg_action_start full_state)),
               actions := actions demo_trace @ [fst (event_action demo_runtime demo_clock msg_action_start full_state)]\<rparr>)
   \<and> currentTrace (snd (addAction demo_clock demo_action full_state)) =
       Some (demo_trace\<lparr>current_agent := agent demo_action,
               actions := actions demo_trace @
                 [demo_action\<lparr>a_id := fst (generateActionId demo_clock full_state),
                              timestamp := JStr (now_ts demo_clock)\<rparr>]\<rparr>)"
proof -
  have h: "currentTrace full_state = Some demo_trace"
    by (simp add: full_state_def)
  have st: "status_t demo_trace = JStr ''completed''"
    by (simp add: demo_trace_def)
  have ty: "get msg_action_start ''type'' \<in>
      {JStr ''action_start'', JStr ''action_started'', JStr ''agent_action''}"
    by (simp add: msg_action_start_def)
  from h st ty
    action_start_appends_in_any_status [OF h, where rt = demo_runtime and c = demo_clock
      and data = msg_action_start and act = demo_action]
  show ?thesis by simp
qed

subsection \<open>Archiving traces\<close>

text \<open>
  C10. Every \<^verbatim>\<open>trace_complete\<close> or \<^verbatim>\<open>trace_completed\<close> message, and every local
  \<^verbatim>\<open>completeTrace\<close> call, that finds a current trace puts a copy of it in front of
  \<^verbatim>\<open>allTraces\<close>, cut to 20 entries, whatever the trace's status already is. So two
  \<^verbatim>\<open>trace_complete\<close> messages after one \<^verbatim>\<open>trace_started\<close> leave two entries with the
  same \<^verbatim>\<open>trace_id\<close>: nothing looks for an entry of the same trace, and the cut counts both.
\<close>

theorem trace_complete_archives_each_time:
  "(currentTrace s = Some t \<longrightarrow>
      (get data ''type'' \<in> {JStr ''trace_complete'', JStr ''trace_completed''} \<longrightarrow>
         allTraces (onmessage rt c data s) =
           take 20 (t\<lparr>status_t := JStr ''completed'',
                      completed_at := or_js (get data ''timestamp'') (JStr (now_iso c)),
                      total_duration_ms := get data ''duration_ms'',
                      summary := get data ''summary'',
                      current_agent := JUndef\<rparr> # allTraces s))
      \<and> allTraces (completeTrace c summ s) =
           take 20 (t\<lparr>status_t := JStr ''completed'', completed_at := JStr (now_iso c),
                      summary := summ, current_agent := JUndef\<rparr> # allTraces s))
   \<and> map trace_id (allTraces (run demo_runtime initial_state
        [(demo_clock, Message msg_trace_started), (demo_clock, Message msg_trace_complete),
         (demo_clock, Message msg_trace_complete)])) = [JStr ''T1'', JStr ''T1'']"
proof (intro conjI impI)
  assume "currentTrace s = Some t"
    and "get data ''type'' \<in> {JStr ''trace_complete'', JStr ''trace_completed''}"
  then show "allTraces (onmessage rt c data s) =
           take 20 (t\<lparr>status_t := JStr ''completed'',
                      completed_at := or_js (get data ''timestamp'') (JStr (now_iso c)),
                      total_duration_ms := get data ''duration_ms'',
                      summary := get data ''summary'',
                      current_agent := JUndef\<rparr> # allTraces s)"
    by (auto simp: onmessage_def handleWebSocketMessage_def handle_trace_complete_def Let_def
        dest: typed_not_nullish)
next
  assume "currentTrace s = Some t"
  then show "allTraces (completeTrace c summ s) =
           take 20 (t\<lparr>status_t := JStr ''completed'', completed_at := JStr (now_iso c),
                      summary := summ, current_agent := JUndef\<rparr> # allTraces s)"
    by (simp add: completeTrace_def Let_def)
next
  show "map trace_id (allTraces (run demo_runtime initial_state
        [(demo_clock, Message msg_trace_started), (demo_clock, Message msg_trace_complete),
         (demo_clock, Message msg_trace_complete)])) = [JStr ''T1'', JStr ''T1'']"
    by (simp add: reducer_defs demo_message_defs msg_trace_complete_def)
qed

theorem trace_complete_archives_each_time_witness:
  "currentTrace full_state = Some demo_trace \<and> status_t demo_trace = JStr ''completed''
   \<and> get msg_trace_completed ''type'' \<in> {JStr ''trace_complete'', JStr ''trace_completed''}
   \<and> allTraces (onmessage demo_runtime demo_clock msg_trace_completed full_state) =
       take 20 (demo_trace\<lparr>status_t := JStr ''completed'',
                  completed_at := or_js (get msg_trace_completed ''timestamp'') (JStr (now_iso demo_clock)),
                  total_duration_ms := get msg_trace_completed ''duration_ms'',
                  summary := get msg_trace_completed ''summary'',
                  current_agent := JUndef\<rparr> # allTraces full_state)
   \<and> allTraces (completeTrace demo_clock (JStr ''done'') full_state) =
       take 20 (demo_trace\<lparr>status_t := JStr ''completed'', completed_at := JStr (now_iso demo_clock),
                  summary := JStr ''done'', current_agent := JUndef\<rparr> # allTraces full_state)"
proof -
  have h: "currentTrace full_state = Some demo_trace"
    by (simp add: full_state_def)
  have st: "status_t demo_trace = JStr ''completed''"
    by (simp add: demo_trace_def)
  have ty: "get msg_trace_completed ''type'' \<in> {JStr ''trace_complete'', JStr ''trace_completed''}"
    by (simp add: msg_trace_completed_def)
  from h st ty
    trace_complete_archives_each_time [where s = full_state and t = demo_trace
      and rt = demo_runtime and c = demo_clock and data = msg_trace_completed
      and summ = "JStr ''done''"]
  show ?thesis by simp
qed

section \<open>Properties of the service worker\<close>

lemma map_of_caches_open_store:
  "map_of (caches (cache_store name key r (caches_open name w))) name =
     Some (AList.delete key (case map_of (caches w) name of None \<Rightarrow> [] | Some c \<Rightarrow> c) @ [(key, r)])"
proof (cases "map_of (caches w) name")
  case None
  then have "name \<notin> set (map fst (caches w))"
    by (simp add: map_of_eq_None_iff)
  with None show ?thesis
    by (simp add: cache_store_def caches_open_def map_of_map_entry map_add_def)
next
  case (Some c)
  then have "name \<in> set (map fst (caches w))"
    by (metis map_of_eq_None_iff option.distinct(1) set_map)
  with Some show ?thesis
    by (simp add: cache_store_def caches_open_def map_of_map_entry)
qed

lemma stored_after_open_put:
  assumes "put_accepted key r"
  shows "\<exists>c. map_of (caches (cache_put name key r (caches_open name w))) name = Some c \<and>
             map_of c key = Some r"
proof -
  have "caches (cache_put name key r (caches_open name w)) =
          caches (cache_store name key r (caches_open name w))"
    using assms by (simp add: cache_put_def Let_def cache_store_def caches_open_def)
  then show ?thesis
    by (simp only: map_of_caches_open_store) (simp add: map_add_def delete_conv')
qed

lemma refused_put_stores_nothing:
  "\<not> put_accepted key r \<Longrightarrow> caches (cache_put name key r w) = caches w"
  by (simp add: cache_put_def Let_def)


lemma caches_match_append_empty: "caches_match (cs @ [(name, [])]) key = caches_match cs key"
  by (induction cs) (auto split: option.splits)

lemma caches_match_caches_open:
  "caches_match (caches (caches_open name w)) key = caches_match (caches w) key"
  by (simp add: caches_open_def caches_match_append_empty)

lemma fetched_caches_open_put [simp]:
  "fetched (cache_put name key r (caches_open name w)) = fetched w"
  by (simp add: cache_put_def cache_store_def caches_open_def Let_def)

lemma puts_caches_open_put [simp]:
  "puts (cache_put name key r (caches_open name w)) = puts w @ [(name, key)]"
  by (simp add: cache_put_def cache_store_def caches_open_def Let_def)

lemma page_accepted: "put_accepted (CHR ''/'' # u) page"
  by (simp add: put_accepted_def http_url_def page_def vary_star_def lower_char_def)

subsection \<open>API requests\<close>

text \<open>
  C2 as stated (an ok response to an allowlisted API request is written to the dynamic
  cache) fails: an answer of status 206 is ok, the worker calls \<^verbatim>\<open>cache.put\<close> for it, the
  platform rejects the call, and the dynamic cache holds nothing under the request's key.
\<close>

theorem partial_api_response_not_stored:
  "req_method req_curriculum = ''GET'' \<and> prefix ''/api/'' (pathname req_curriculum)
   \<and> isCacheableApi (pathname req_curriculum)
   \<and> net_partial (url req_curriculum) = Some partial_page \<and> ok partial_page
   \<and> fst (on_fetch net_partial req_curriculum fresh_worker) = RespondWith (Inr partial_page)
   \<and> puts (snd (on_fetch net_partial req_curriculum fresh_worker))
       = [(DYNAMIC_CACHE, url req_curriculum)]
   \<and> caches (snd (on_fetch net_partial req_curriculum fresh_worker)) = [(DYNAMIC_CACHE, [])]
   \<and> caches_match (caches (snd (on_fetch net_partial req_curriculum fresh_worker)))
       (url req_curriculum) = None"
  by (simp add: on_fetch_def respondWith_def handleApiRequest_def fetch_def isCacheableApi_def
      CACHEABLE_API_PATTERNS_def req_curriculum_def net_partial_def partial_page_def ok_def
      fresh_worker_def cache_put_def put_accepted_def caches_open_def Let_def)

text \<open>
  C2, amended. For a GET request whose path is under \<^verbatim>\<open>/api/\<close> and whose fetch answers
  with an ok response: the caller gets that response; the worker calls \<^verbatim>\<open>cache.put\<close> on
  the dynamic cache under the request's key exactly when the path starts with one of the
  three cacheable prefixes; the response is then stored there when the platform accepts
  it (http or https URL, status other than 206, no \<^verbatim>\<open>Vary: *\<close>), and when the platform
  refuses it no cache lookup changes. For any other API path no put is made and no cache
  changes, so this path never gives a later request something to hit.
\<close>

theorem api_response_cached_iff_allowlisted:
  assumes "req_method request = ''GET''" and "prefix ''/api/'' (pathname request)"
    and "net (url request) = Some response" and "ok response"
  shows "fst (on_fetch net request w) = RespondWith (Inr response)
    \<and> (isCacheableApi (pathname request) \<longleftrightarrow>
         prefix ''/api/v1/curriculum'' (pathname request) \<or>
         prefix ''/api/v1/offline/packs'' (pathname request) \<or>
         prefix ''/api/v1/offline/prebuilt'' (pathname request))
    \<and> puts (snd (on_fetch net request w)) =
         puts w @ (if isCacheableApi (pathname request) then [(DYNAMIC_CACHE, url request)] else [])
    \<and> (isCacheableApi (pathname request) \<longrightarrow> put_accepted (url request) response \<longrightarrow>
         (\<exists>c. map_of (caches (snd (on_fetch net request w))) DYNAMIC_CACHE = Some c \<and>
              map_of c (url request) = Some response))
    \<and> (isCacheableApi (pathname request) \<longrightarrow> \<not> put_accepted (url request) response \<longrightarrow>
         (\<forall>key. caches_match (caches (snd (on_fetch net request w))) key =
                caches_match (caches w) key))
    \<and> (\<not> isCacheableApi (pathname request) \<longrightarrow>
         caches (snd (on_fetch net request w)) = caches w)
    \<and> (put_accepted (url request) response \<longleftrightarrow>
         http_url (url request) \<and> status_code response \<noteq> 206 \<and> \<not> vary_star response)"
proof -
  have w1: "caches (w\<lparr>fetched := fetched w @ [url request]\<rparr>) = caches w"
    by simp
  show ?thesis
    using assms
    by (simp add: on_fetch_def respondWith_def handleApiRequest_def fetch_def
        stored_after_open_put refused_put_stores_nothing caches_match_caches_open
        isCacheableApi_def CACHEABLE_API_PATTERNS_def put_accepted_def [symmetric])
qed

theorem api_response_cached_iff_allowlisted_witness:
  "req_method req_curriculum = ''GET'' \<and> prefix ''/api/'' (pathname req_curriculum)
   \<and> req_method req_chat = ''GET'' \<and> prefix ''/api/'' (pathname req_chat)
   \<and> net_up (url req_curriculum) = Some page \<and> net_up (url req_chat) = Some page \<and> ok page
   \<and> net_partial (url req_curriculum) = Some partial_page \<and> ok partial_page
   \<and> isCacheableApi (pathname req_curriculum) \<and> \<not> isCacheableApi (pathname req_chat)
   \<and> put_accepted (url req_curriculum) page \<and> \<not> put_accepted (url req_curriculum) partial_page
   \<and> fst (on_fetch net_up req_curriculum fresh_worker) = RespondWith (Inr page)
   \<and> puts (snd (on_fetch net_up req_curriculum fresh_worker)) = [(DYNAMIC_CACHE, url req_curriculum)]
   \<and> (\<exists>c. map_of (caches (snd (on_fetch net_up req_curriculum fresh_worker))) DYNAMIC_CACHE = Some c \<and>
           map_of c (url req_curriculum) = Some page)
   \<and> (\<forall>key. caches_match (caches (snd (on_fetch net_partial req_curriculum fresh_worker))) key = None)
   \<and> fst (on_fetch net_up req_chat fresh_worker) = RespondWith (Inr page)
   \<and> puts (snd (on_fetch net_up req_chat fresh_worker)) = []
   \<and> caches (snd (on_fetch net_up req_chat fresh_worker)) = []"
proof -
  have h1: "req_method req_curriculum = ''GET''" "prefix ''/api/'' (pathname req_curriculum)"
    "net_up (url req_curriculum) = Some page" "ok page"
    by (simp_all add: req_curriculum_def net_up_def page_def ok_def)
  have h2: "req_method req_chat = ''GET''" "prefix ''/api/'' (pathname req_chat)"
    "net_up (url req_chat) = Some page"
    by (simp_all add: req_chat_def net_up_def)
  have h3: "net_partial (url req_curriculum) = Some partial_page" "ok partial_page"
    by (simp_all add: net_partial_def partial_page_def ok_def)
  have a: "isCacheableApi (pathname req_curriculum)" "\<not> isCacheableApi (pathname req_chat)"
    by (simp_all add: isCacheableApi_def CACHEABLE_API_PATTERNS_def req_curriculum_def req_chat_def)
  have p: "put_accepted (url req_curriculum) page" "\<not> put_accepted (url req_curriculum) partial_page"
    by (simp_all add: req_curriculum_def page_accepted) (simp add: put_accepted_def partial_page_def)
  have e: "puts fresh_worker = []" "caches fresh_worker = []"
    by (simp_all add: fresh_worker_def)
  from api_response_cached_iff_allowlisted [where net = net_up and request = req_curriculum
      and response = page and w = fresh_worker]
    api_response_cached_iff_allowlisted [where net = net_up and request = req_chat
      and response = page and w = fresh_worker]
    api_response_cached_iff_allowlisted [where net = net_partial and request = req_curriculum
      and response = partial_page and w = fresh_worker] h1 h2 h3 a p e
  show ?thesis by simp
qed

subsection \<open>Install\<close>

text \<open>The promise that the install listener hands to \<^verbatim>\<open>event.waitUntil\<close> never rejects: its
  last link is a \<^verbatim>\<open>catch\<close> whose handler logs and returns. So every install ends installed.\<close>

lemma install_promise_fulfils: "fst (install_promise net w) = Inr ()"
  by (auto simp: install_promise_def catch_p_def then_p_def split: prod.splits sum.splits)

lemma on_install_installed: "phase (on_install net w) = Installed"
proof -
  obtain r w' where
    "install_promise net (log ''[SW] Installing Syncora Service Worker...'' w) = (r, w')"
    by (cases "install_promise net (log ''[SW] Installing Syncora Service Worker...'' w)")
  with install_promise_fulfils [of net "log ''[SW] Installing Syncora Service Worker...'' w"]
  show ?thesis by (simp add: on_install_def)
qed

text \<open>The bulk write itself is all or nothing.\<close>

lemma addAll_rejected_writes_nothing:
  "fst (addAll net name urls w) = Inl e \<Longrightarrow> caches (snd (addAll net name urls w)) = caches w"
  by (auto simp: addAll_def Let_def split: option.splits if_splits)

text \<open>
  C3. When the fetch of one core asset fails, the whole install step should fail. It does
  not: with \<^verbatim>\<open>/manifest.json\<close> unreachable nothing is written to the core cache, the
  failure is logged and \<^verbatim>\<open>skipWaiting\<close> is not called, but the promise given to
  \<^verbatim>\<open>event.waitUntil\<close> fulfils, so the install completes and the worker is installed with an
  empty core cache.
\<close>

theorem install_completes_when_core_asset_fetch_fails:
  "net_manifest_down ''/manifest.json'' = None
   \<and> fst (addAll net_manifest_down CACHE_NAME CORE_ASSETS
            (caches_open CACHE_NAME fresh_worker)) = Inl FetchFailed
   \<and> fst (install_promise net_manifest_down fresh_worker) = Inr ()
   \<and> phase (on_install net_manifest_down fresh_worker) = Installed
   \<and> caches (on_install net_manifest_down fresh_worker) = [(CACHE_NAME, [])]
   \<and> skipWaiting_called (on_install net_manifest_down fresh_worker) = False
   \<and> console (on_install net_manifest_down fresh_worker) =
       [''[SW] Installing Syncora Service Worker...'', ''[SW] Caching core assets'',
        ''[SW] Installation failed:'']"
  by (simp add: on_install_def install_promise_def catch_p_def then_p_def addAll_def
      CORE_ASSETS_def net_manifest_down_def fresh_worker_def log_def caches_open_def Let_def
      http_url_def)

subsection \<open>Activate\<close>

lemma caches_fold_delete:
  "caches (fold (\<lambda>cacheName w'.
                   if cacheName \<noteq> CACHE_NAME \<and> cacheName \<noteq> DYNAMIC_CACHE \<and>
                      cacheName \<noteq> OFFLINE_PACKS_CACHE
                   then caches_delete cacheName (log (''[SW] Deleting old cache: '' @ cacheName) w')
                   else w') ns w)
   = filter (\<lambda>(n, c). \<not> (n \<in> set ns \<and> n \<noteq> CACHE_NAME \<and> n \<noteq> DYNAMIC_CACHE \<and>
                          n \<noteq> OFFLINE_PACKS_CACHE)) (caches w)"
proof (induction ns arbitrary: w)
  case Nil
  then show ?case by simp
next
  case (Cons n ns)
  show ?case
    by (simp add: Cons.IH caches_delete_def log_def AList.delete_eq)
       (auto intro!: filter_cong)
qed

lemma caches_on_activate:
  "caches (on_activate w) =
     filter (\<lambda>(n, c). n = CACHE_NAME \<or> n = DYNAMIC_CACHE \<or> n = OFFLINE_PACKS_CACHE) (caches w)"
  by (simp add: on_activate_def Let_def caches_fold_delete caches_keys_def log_def)
     (force intro!: filter_cong)

text \<open>
  C6. After activation, no cache name that existed before and is not one of the three
  current names (core, dynamic, offline packs) is left among the cache names; a cache
  under one of the three names is kept, with its content.
\<close>

theorem activation_purges_exactly_stale_caches:
  "(\<forall>name \<in> set (caches_keys w).
      name \<noteq> CACHE_NAME \<and> name \<noteq> DYNAMIC_CACHE \<and> name \<noteq> OFFLINE_PACKS_CACHE \<longrightarrow>
      name \<notin> set (caches_keys (on_activate w)))
   \<and> (\<forall>name c. (name, c) \<in> set (caches w) \<longrightarrow>
      name = CACHE_NAME \<or> name = DYNAMIC_CACHE \<or> name = OFFLINE_PACKS_CACHE \<longrightarrow>
      (name, c) \<in> set (caches (on_activate w)))
   \<and> caches (on_activate w) =
       filter (\<lambda>(n, c). n = CACHE_NAME \<or> n = DYNAMIC_CACHE \<or> n = OFFLINE_PACKS_CACHE) (caches w)"
  by (auto simp: caches_on_activate caches_keys_def)

theorem activation_purges_exactly_stale_caches_witness:
  "''syncora-v0'' \<in> set (caches_keys worker_with_old_caches)
   \<and> ''syncora-v0'' \<noteq> CACHE_NAME \<and> ''syncora-v0'' \<noteq> DYNAMIC_CACHE
   \<and> ''syncora-v0'' \<noteq> OFFLINE_PACKS_CACHE
   \<and> (CACHE_NAME, [(''/'', page)]) \<in> set (caches worker_with_old_caches)
   \<and> ''syncora-v0'' \<notin> set (caches_keys (on_activate worker_with_old_caches))
   \<and> (CACHE_NAME, [(''/'', page)]) \<in> set (caches (on_activate worker_with_old_caches))"
proof -
  have old: "''syncora-v0'' \<in> set (caches_keys worker_with_old_caches)"
    by (simp add: caches_keys_def worker_with_old_caches_def fresh_worker_def)
  have ne: "''syncora-v0'' \<noteq> CACHE_NAME" "''syncora-v0'' \<noteq> DYNAMIC_CACHE"
    "''syncora-v0'' \<noteq> OFFLINE_PACKS_CACHE"
    by (simp_all add: CACHE_NAME_def DYNAMIC_CACHE_def OFFLINE_PACKS_CACHE_def)
  have cur: "(CACHE_NAME, [(''/'', page)]) \<in> set (caches worker_with_old_caches)"
    by (simp add: worker_with_old_caches_def fresh_worker_def)
  from activation_purges_exactly_stale_caches [of worker_with_old_caches] old ne cur
  show ?thesis by blast
qed

subsection \<open>Static assets\<close>

text \<open>The refresh never touches a cache other than the dynamic one: an entry that was
  served from the core cache stays what it was, and is served again.\<close>

lemma core_hit_stays_stale:
  "caches_match (caches worker_with_core_script) (url req_script) = Some stale_page
   \<and> fst (on_fetch net_up req_script worker_with_core_script) = RespondWith (Inr stale_page)
   \<and> caches (snd (on_fetch net_up req_script worker_with_core_script)) =
       [(CACHE_NAME, [(''/static/app.js'', stale_page)]), (DYNAMIC_CACHE, [(''/static/app.js'', page)])]
   \<and> caches_match (caches (snd (on_fetch net_up req_script worker_with_core_script)))
       (url req_script) = Some stale_page"
  by (simp add: on_fetch_def respondWith_def handleStaticAssets_def fetchAndCache_def fetch_def
      req_script_def worker_with_core_script_def fresh_worker_def net_up_def ok_def
      cache_put_def cache_store_def caches_open_def Let_def CACHE_NAME_def DYNAMIC_CACHE_def
      put_accepted_def http_url_def vary_star_def lower_char_def page_def stale_page_def)



subsection \<open>Navigation\<close>

text \<open>
  C5. For a navigation request whose fetch fails, with no cached entry for the request
  and no cached offline page, the response is the built-in fallback document
  \<^verbatim>\<open>getOfflineHTML()\<close> with status 200 and content type \<^verbatim>\<open>text/html\<close>. The fetch
  listener hands a GET request of mode \<^verbatim>\<open>navigate\<close> to this strategy unless one of the
  two earlier rules (API path, offline-pack download) has taken it.
\<close>

theorem navigation_falls_back_to_builtin_html:
  assumes "net (url request) = None"
    and "caches_match (caches w) (url request) = None"
    and "caches_match (caches w) OFFLINE_URL = None"
  shows "fst (handleNavigationRequest net request w) =
           Inr \<lparr>body = getOfflineHTML, status_code = 200,
                headers = [(''Content-Type'', ''text/html'')]\<rparr>
    \<and> (req_method request = ''GET'' \<and> \<not> prefix ''/api/'' (pathname request) \<and>
        \<not> includes_str (pathname request) ''/offline/download'' \<and>
        mode request = ''navigate'' \<longrightarrow>
          fst (on_fetch net request w) =
            RespondWith (Inr \<lparr>body = getOfflineHTML, status_code = 200,
                              headers = [(''Content-Type'', ''text/html'')]\<rparr>))"
  using assms
  by (simp add: on_fetch_def respondWith_def handleNavigationRequest_def fetch_def log_def Let_def)

theorem navigation_falls_back_to_builtin_html_witness:
  "req_method req_dashboard = ''GET'' \<and> \<not> prefix ''/api/'' (pathname req_dashboard)
   \<and> \<not> includes_str (pathname req_dashboard) ''/offline/download''
   \<and> mode req_dashboard = ''navigate''
   \<and> net_down (url req_dashboard) = None
   \<and> caches_match (caches fresh_worker) (url req_dashboard) = None
   \<and> caches_match (caches fresh_worker) OFFLINE_URL = None
   \<and> fst (handleNavigationRequest net_down req_dashboard fresh_worker) =
       Inr \<lparr>body = getOfflineHTML, status_code = 200,
            headers = [(''Content-Type'', ''text/html'')]\<rparr>
   \<and> fst (on_fetch net_down req_dashboard fresh_worker) =
       RespondWith (Inr \<lparr>body = getOfflineHTML, status_code = 200,
                         headers = [(''Content-Type'', ''text/html'')]\<rparr>)"
proof -
  have h: "net_down (url req_dashboard) = None"
    "caches_match (caches fresh_worker) (url req_dashboard) = None"
    "caches_match (caches fresh_worker) OFFLINE_URL = None"
    by (simp_all add: net_down_def fresh_worker_def)
  have k: "req_method req_dashboard = ''GET''" "\<not> prefix ''/api/'' (pathname req_dashboard)"
    "\<not> includes_str (pathname req_dashboard) ''/offline/download''"
    "mode req_dashboard = ''navigate''"
    by (simp_all add: req_dashboard_def)
  from navigation_falls_back_to_builtin_html [where net = net_down and request = req_dashboard
      and w = fresh_worker] h k
  show ?thesis by simp
qed

end
